theory Spec2Isabelle
  imports Complex_Main
begin

section \<open>Strings, paths and exceptions\<close>

text \<open>
  Python \<open>str\<close> values are modelled as \<open>string\<close>; text outside ASCII is written as
  its UTF-8 bytes. Exceptions are values: an operation returns \<open>exn + 'a\<close> together with
  the state it leaves behind.
\<close>

datatype exn =
    ValueError string
  | RuntimeError string
  | TypeError string
  | AttributeError string
  | FileNotFoundError string
  | OSError string
  | SQLAlchemyError string
  | HTTPException nat string

fun str_exn :: "exn \<Rightarrow> string" where
  "str_exn (ValueError m) = m"
| "str_exn (RuntimeError m) = m"
| "str_exn (TypeError m) = m"
| "str_exn (AttributeError m) = m"
| "str_exn (FileNotFoundError m) = m"
| "str_exn (OSError m) = m"
| "str_exn (SQLAlchemyError m) = m"
| "str_exn (HTTPException c m) = m"

fun is_ValueError :: "exn \<Rightarrow> bool" where
  "is_ValueError (ValueError m) = True"
| "is_ValueError e = False"

definition digit_char :: "nat \<Rightarrow> char" where
  "digit_char d = ''0123456789'' ! d"

fun str_nat :: "nat \<Rightarrow> string" where
  "str_nat n = (if n < 10 then [digit_char n] else str_nat (n div 10) @ [digit_char (n mod 10)])"

declare str_nat.simps [simp del]

text \<open>
  \<open>str.lower()\<close> and \<open>str.strip()\<close> follow the Unicode tables of the interpreter
  (\<open>lower\<close> maps U+212A to \<open>k\<close>, \<open>strip\<close> removes U+3000). They are not
  spelled out here: the two methods are parameters of every function that calls them.
\<close>

record python =
  str_lower :: "string \<Rightarrow> string"
  str_strip :: "string \<Rightarrow> string"

text \<open>\<open>str.split(sep)\<close> for a one-character separator.\<close>

fun split_on :: "char \<Rightarrow> string \<Rightarrow> string list" where
  "split_on c [] = [[]]"
| "split_on c (x # xs) =
     (if x = c then [] # split_on c xs
      else (case split_on c xs of [] \<Rightarrow> [[x]] | y # ys \<Rightarrow> (x # y) # ys))"

text \<open>\<open>needle in haystack\<close> on strings.\<close>

fun is_prefix :: "string \<Rightarrow> string \<Rightarrow> bool" where
  "is_prefix [] ys = True"
| "is_prefix (x # xs) [] = False"
| "is_prefix (x # xs) (y # ys) = (x = y \<and> is_prefix xs ys)"

fun str_contains :: "string \<Rightarrow> string \<Rightarrow> bool" where
  "str_contains needle [] = (needle = [])"
| "str_contains needle (y # ys) = (is_prefix needle (y # ys) \<or> str_contains needle ys)"

text \<open>\<open>sep.join(parts)\<close>.\<close>

fun str_join :: "string \<Rightarrow> string list \<Rightarrow> string" where
  "str_join sep [] = []"
| "str_join sep [x] = x"
| "str_join sep (x # y # ys) = x @ sep @ str_join sep (y # ys)"

text \<open>
  \<open>pathlib\<close> on POSIX paths. A path is its root (\<open>/\<close>, \<open>//\<close> for exactly two
  leading slashes, or none) and its components, with the empty ones and the \<open>.\<close> ones
  dropped; \<open>path_of p\<close> is \<open>str(Path(p))\<close> and \<open>path_join d n\<close> is
  \<open>str(Path(d) / n)\<close>. \<open>Path(p).name\<close> is the last component; \<open>suffix\<close> starts
  at the last dot of the name unless that dot is the first or the last character;
  \<open>stem\<close> is the rest of the name; \<open>parent\<close> drops the last component.
\<close>

definition path_parts :: "string \<Rightarrow> string list" where
  "path_parts p = filter (\<lambda>c. c \<noteq> [] \<and> c \<noteq> ''.'') (split_on (CHR ''/'') p)"

definition path_root :: "string \<Rightarrow> string" where
  "path_root p =
     (if is_prefix ''///'' p then ''/''
      else if is_prefix ''//'' p then ''//''
      else if is_prefix ''/'' p then ''/''
      else [])"

definition path_str :: "string \<Rightarrow> string list \<Rightarrow> string" where
  "path_str anchor parts =
     (if parts = [] then (if anchor = [] then ''.'' else anchor)
      else anchor @ str_join ''/'' parts)"

definition path_of :: "string \<Rightarrow> string" where
  "path_of p = path_str (path_root p) (path_parts p)"

definition path_join :: "string \<Rightarrow> string \<Rightarrow> string" where
  "path_join d n =
     (if path_root n \<noteq> [] then path_of n
      else path_str (path_root d) (path_parts d @ path_parts n))"

definition path_name :: "string \<Rightarrow> string" where
  "path_name p =
     (case path_parts p of
        [] \<Rightarrow> []
      | c # cs \<Rightarrow> last (c # cs))"

definition last_dot :: "string \<Rightarrow> nat option" where
  "last_dot name =
     (if CHR ''.'' \<in> set name
      then Some (length name - length (takeWhile (\<lambda>c. c \<noteq> CHR ''.'') (rev name)) - 1)
      else None)"

definition path_suffix :: "string \<Rightarrow> string" where
  "path_suffix p =
     (let name = path_name p in
      case last_dot name of
        None \<Rightarrow> []
      | Some i \<Rightarrow> if 0 < i \<and> i + 1 < length name then drop i name else [])"

definition path_stem :: "string \<Rightarrow> string" where
  "path_stem p =
     (let name = path_name p in
      case last_dot name of
        None \<Rightarrow> name
      | Some i \<Rightarrow> if 0 < i \<and> i + 1 < length name then take i name else name)"

definition path_parent :: "string \<Rightarrow> string" where
  "path_parent p = path_str (path_root p) (butlast (path_parts p))"

subsection \<open>Text constants\<close>

text \<open>
  The Chinese literals of the source, as UTF-8 bytes; for each, the code points outside
  ASCII and the meaning:
  \<^item> \<open>fallback_image_label\<close>: U+4E0D U+53EF U+7528 U+5716 U+7247 U+6587 U+4EF6
    (OCR unavailable, image file);
  \<^item> \<open>fallback_file_label\<close>: U+4E0D U+53EF U+7528 U+7121 U+6CD5 U+63D0 U+53D6
    U+6587 U+5B57 U+5167 U+5BB9 U+FF0C U+6A94 U+6848 (OCR unavailable, no text could be
    extracted, file);
  \<^item> \<open>page_header_open\<close>: U+7B2C (page header, before the number);
  \<^item> \<open>page_header_close\<close>: U+9801 (page header, after the number);
  \<^item> \<open>text_needs_more_analysis\<close>: U+9700 U+8981 U+9032 U+4E00 U+6B65 U+5206
    U+6790 (further analysis needed);
  \<^item> \<open>text_llm_analysis_failed\<close>: U+5206 U+6790 U+5931 U+6557 U+FF0C U+5EFA
    U+8B70 U+624B U+52D5 U+5206 U+6790 (LLM analysis failed, manual analysis suggested);
  \<^item> \<open>text_consult_expert_or_statutes\<close>: U+8ACB U+8AEE U+8A62 U+6CD5 U+5F8B
    U+5C08 U+5BB6 U+6216 U+67E5 U+95B1 U+76F8 U+95DC U+6CD5 U+689D (consult a legal expert or
    the statutes);
  \<^item> \<open>type_pending\<close>: U+5F85 U+5206 U+6790 (to be analysed);
  \<^item> \<open>level_unknown\<close>: U+672A U+77E5 (unknown);
  \<^item> \<open>text_cannot_analyse_now\<close>: U+7CFB U+7D71 U+66AB U+6642 U+7121 U+6CD5
    U+5206 U+6790 U+6B64 U+984C U+76EE (the system cannot analyse this question now);
  \<^item> \<open>text_retry_or_support\<close>: U+8ACB U+91CD U+8A66 U+6216 U+806F U+7E6B
    U+6280 U+8853 U+652F U+63F4 (retry or contact support);
  \<^item> \<open>text_consult_textbooks\<close>: U+5EFA U+8B70 U+67E5 U+95B1 U+76F8 U+95DC
    U+6CD5 U+5F8B U+6559 U+6750 U+6216 U+8AEE U+8A62 U+5C08 U+696D U+4EBA U+58EB (consult
    textbooks or a professional);
  \<^item> \<open>type_choice\<close>: U+9078 U+64C7 U+984C (multiple-choice question);
  \<^item> \<open>type_essay\<close>: U+7533 U+8AD6 U+984C (essay question);
  \<^item> \<open>type_case\<close>: U+6848 U+4F8B U+5206 U+6790 (case analysis);
  \<^item> \<open>type_short_answer\<close>: U+554F U+7B54 U+984C (short-answer question);
  \<^item> \<open>type_unclassified\<close>: U+672A U+5206 U+985E (unclassified);
  \<^item> \<open>fullwidth_question_mark\<close>: U+FF1F (full-width question mark);
  \<^item> \<open>level_basic\<close>: U+521D U+7D1A (basic);
  \<^item> \<open>level_intermediate\<close>: U+4E2D U+7D1A (intermediate);
  \<^item> \<open>level_advanced\<close>: U+9AD8 U+7D1A (advanced);
  \<^item> \<open>fallback_suggestions\<close>: U+8ACB U+8AEE U+8A62 U+6CD5 U+5F8B U+5C08 U+5BB6
    U+6216 U+4F7F U+7528 U+5B8C U+6574 U+5206 U+6790 U+529F U+80FD (consult a legal expert or
    use the full AI analysis);
  \<^item> \<open>fallback_note\<close>: U+670D U+52D9 U+66AB U+6642 U+4E0D U+53EF U+7528 U+FF0C
    U+4F7F U+7528 U+57FA U+790E U+5206 U+985E (AI service unavailable, basic classification
    used);
  \<^item> \<open>fallback_key_point\<close>: U+9700 U+8981 U+5B8C U+6574 U+5206 U+6790 U+529F
    U+80FD (the full AI analysis is needed);
  \<^item> \<open>fallback_approach\<close>: U+8ACB U+91CD U+8A66 U+6216 U+4F7F U+7528 U+624B
    U+52D5 U+5206 U+6790 (retry or analyse by hand);
  \<^item> \<open>importance_medium\<close>: U+4E2D U+7B49 (medium);
  \<^item> \<open>choice_markers\<close>: U+9078 U+64C7, U+4E0B U+5217, U+4F55 U+8005, U+54EA
    U+500B (choose, the following, which one, which);
  \<^item> \<open>essay_markers\<close>: U+8AAA U+660E, U+89E3 U+91CB, U+8AD6 U+8FF0, U+5206
    U+6790 (explain, interpret, discuss, analyse);
  \<^item> \<open>case_markers\<close>: U+6848 U+4F8B, U+4E8B U+5BE6, U+60C5 U+6CC1, U+7532
    U+4E59 (case, facts, situation, parties A and B);
  \<^item> \<open>legal_keywords\<close>: U+5951 U+7D04, U+8CA1 U+7522, U+640D U+5BB3, U+8CAC
    U+4EFB, U+6B0A U+5229, U+7FA9 U+52D9, U+6CD5 U+5F8B, U+689D U+6587, U+6C11 U+6CD5, U+5211
    U+6CD5, U+5546 U+696D, U+516C U+53F8, U+6D88 U+8CBB U+8005, U+4FDD U+8B77, U+7BA1 U+7406,
    U+689D U+4F8B (contract, property, damage, liability, right, duty, law, provision, civil
    code, criminal code, commerce, company, consumer, protection, management, ordinance).
\<close>

definition fallback_image_label :: string where
  "fallback_image_label =
     ''[OCR''
   @ [CHR 0xE4, CHR 0xB8, CHR 0x8D, CHR 0xE5, CHR 0x8F, CHR 0xAF, CHR 0xE7, CHR 0x94,
      CHR 0xA8]
   @ ''] ''
   @ [CHR 0xE5, CHR 0x9C, CHR 0x96, CHR 0xE7, CHR 0x89, CHR 0x87, CHR 0xE6, CHR 0x96,
      CHR 0x87, CHR 0xE4, CHR 0xBB, CHR 0xB6]
   @ '': ''"

definition fallback_file_label :: string where
  "fallback_file_label =
     ''[OCR''
   @ [CHR 0xE4, CHR 0xB8, CHR 0x8D, CHR 0xE5, CHR 0x8F, CHR 0xAF, CHR 0xE7, CHR 0x94,
      CHR 0xA8]
   @ ''] ''
   @ [CHR 0xE7, CHR 0x84, CHR 0xA1, CHR 0xE6, CHR 0xB3, CHR 0x95, CHR 0xE6, CHR 0x8F,
      CHR 0x90, CHR 0xE5, CHR 0x8F, CHR 0x96, CHR 0xE6, CHR 0x96, CHR 0x87, CHR 0xE5,
      CHR 0xAD, CHR 0x97, CHR 0xE5, CHR 0x85, CHR 0xA7, CHR 0xE5, CHR 0xAE, CHR 0xB9,
      CHR 0xEF, CHR 0xBC, CHR 0x8C, CHR 0xE6, CHR 0xAA, CHR 0x94, CHR 0xE6, CHR 0xA1,
      CHR 0x88]
   @ '': ''"

definition page_header_open :: string where
  "page_header_open =
     ''=== ''
   @ [CHR 0xE7, CHR 0xAC, CHR 0xAC]
   @ '' ''"

definition page_header_close :: string where
  "page_header_close =
     '' ''
   @ [CHR 0xE9, CHR 0xA0, CHR 0x81]
   @ '' ===''
   @ [CHR 0x0A]"

definition text_needs_more_analysis :: string where
  "text_needs_more_analysis =
     [CHR 0xE9, CHR 0x9C, CHR 0x80, CHR 0xE8, CHR 0xA6, CHR 0x81, CHR 0xE9, CHR 0x80,
      CHR 0xB2, CHR 0xE4, CHR 0xB8, CHR 0x80, CHR 0xE6, CHR 0xAD, CHR 0xA5, CHR 0xE5,
      CHR 0x88, CHR 0x86, CHR 0xE6, CHR 0x9E, CHR 0x90]"

definition text_llm_analysis_failed :: string where
  "text_llm_analysis_failed =
     ''LLM ''
   @ [CHR 0xE5, CHR 0x88, CHR 0x86, CHR 0xE6, CHR 0x9E, CHR 0x90, CHR 0xE5, CHR 0xA4,
      CHR 0xB1, CHR 0xE6, CHR 0x95, CHR 0x97, CHR 0xEF, CHR 0xBC, CHR 0x8C, CHR 0xE5,
      CHR 0xBB, CHR 0xBA, CHR 0xE8, CHR 0xAD, CHR 0xB0, CHR 0xE6, CHR 0x89, CHR 0x8B,
      CHR 0xE5, CHR 0x8B, CHR 0x95, CHR 0xE5, CHR 0x88, CHR 0x86, CHR 0xE6, CHR 0x9E,
      CHR 0x90]"

definition text_consult_expert_or_statutes :: string where
  "text_consult_expert_or_statutes =
     [CHR 0xE8, CHR 0xAB, CHR 0x8B, CHR 0xE8, CHR 0xAB, CHR 0xAE, CHR 0xE8, CHR 0xA9,
      CHR 0xA2, CHR 0xE6, CHR 0xB3, CHR 0x95, CHR 0xE5, CHR 0xBE, CHR 0x8B, CHR 0xE5,
      CHR 0xB0, CHR 0x88, CHR 0xE5, CHR 0xAE, CHR 0xB6, CHR 0xE6, CHR 0x88, CHR 0x96,
      CHR 0xE6, CHR 0x9F, CHR 0xA5, CHR 0xE9, CHR 0x96, CHR 0xB1, CHR 0xE7, CHR 0x9B,
      CHR 0xB8, CHR 0xE9, CHR 0x97, CHR 0x9C, CHR 0xE6, CHR 0xB3, CHR 0x95, CHR 0xE6,
      CHR 0xA2, CHR 0x9D]"

definition type_pending :: string where
  "type_pending =
     [CHR 0xE5, CHR 0xBE, CHR 0x85, CHR 0xE5, CHR 0x88, CHR 0x86, CHR 0xE6, CHR 0x9E,
      CHR 0x90]"

definition level_unknown :: string where
  "level_unknown =
     [CHR 0xE6, CHR 0x9C, CHR 0xAA, CHR 0xE7, CHR 0x9F, CHR 0xA5]"

definition text_cannot_analyse_now :: string where
  "text_cannot_analyse_now =
     [CHR 0xE7, CHR 0xB3, CHR 0xBB, CHR 0xE7, CHR 0xB5, CHR 0xB1, CHR 0xE6, CHR 0x9A,
      CHR 0xAB, CHR 0xE6, CHR 0x99, CHR 0x82, CHR 0xE7, CHR 0x84, CHR 0xA1, CHR 0xE6,
      CHR 0xB3, CHR 0x95, CHR 0xE5, CHR 0x88, CHR 0x86, CHR 0xE6, CHR 0x9E, CHR 0x90,
      CHR 0xE6, CHR 0xAD, CHR 0xA4, CHR 0xE9, CHR 0xA1, CHR 0x8C, CHR 0xE7, CHR 0x9B,
      CHR 0xAE]"

definition text_retry_or_support :: string where
  "text_retry_or_support =
     [CHR 0xE8, CHR 0xAB, CHR 0x8B, CHR 0xE9, CHR 0x87, CHR 0x8D, CHR 0xE8, CHR 0xA9,
      CHR 0xA6, CHR 0xE6, CHR 0x88, CHR 0x96, CHR 0xE8, CHR 0x81, CHR 0xAF, CHR 0xE7,
      CHR 0xB9, CHR 0xAB, CHR 0xE6, CHR 0x8A, CHR 0x80, CHR 0xE8, CHR 0xA1, CHR 0x93,
      CHR 0xE6, CHR 0x94, CHR 0xAF, CHR 0xE6, CHR 0x8F, CHR 0xB4]"

definition text_consult_textbooks :: string where
  "text_consult_textbooks =
     [CHR 0xE5, CHR 0xBB, CHR 0xBA, CHR 0xE8, CHR 0xAD, CHR 0xB0, CHR 0xE6, CHR 0x9F,
      CHR 0xA5, CHR 0xE9, CHR 0x96, CHR 0xB1, CHR 0xE7, CHR 0x9B, CHR 0xB8, CHR 0xE9,
      CHR 0x97, CHR 0x9C, CHR 0xE6, CHR 0xB3, CHR 0x95, CHR 0xE5, CHR 0xBE, CHR 0x8B,
      CHR 0xE6, CHR 0x95, CHR 0x99, CHR 0xE6, CHR 0x9D, CHR 0x90, CHR 0xE6, CHR 0x88,
      CHR 0x96, CHR 0xE8, CHR 0xAB, CHR 0xAE, CHR 0xE8, CHR 0xA9, CHR 0xA2, CHR 0xE5,
      CHR 0xB0, CHR 0x88, CHR 0xE6, CHR 0xA5, CHR 0xAD, CHR 0xE4, CHR 0xBA, CHR 0xBA,
      CHR 0xE5, CHR 0xA3, CHR 0xAB]"

definition type_choice :: string where
  "type_choice =
     [CHR 0xE9, CHR 0x81, CHR 0xB8, CHR 0xE6, CHR 0x93, CHR 0x87, CHR 0xE9, CHR 0xA1,
      CHR 0x8C]"

definition type_essay :: string where
  "type_essay =
     [CHR 0xE7, CHR 0x94, CHR 0xB3, CHR 0xE8, CHR 0xAB, CHR 0x96, CHR 0xE9, CHR 0xA1,
      CHR 0x8C]"

definition type_case :: string where
  "type_case =
     [CHR 0xE6, CHR 0xA1, CHR 0x88, CHR 0xE4, CHR 0xBE, CHR 0x8B, CHR 0xE5, CHR 0x88,
      CHR 0x86, CHR 0xE6, CHR 0x9E, CHR 0x90]"

definition type_short_answer :: string where
  "type_short_answer =
     [CHR 0xE5, CHR 0x95, CHR 0x8F, CHR 0xE7, CHR 0xAD, CHR 0x94, CHR 0xE9, CHR 0xA1,
      CHR 0x8C]"

definition type_unclassified :: string where
  "type_unclassified =
     [CHR 0xE6, CHR 0x9C, CHR 0xAA, CHR 0xE5, CHR 0x88, CHR 0x86, CHR 0xE9, CHR 0xA1,
      CHR 0x9E]"

definition fullwidth_question_mark :: string where
  "fullwidth_question_mark =
     [CHR 0xEF, CHR 0xBC, CHR 0x9F]"

definition level_basic :: string where
  "level_basic =
     [CHR 0xE5, CHR 0x88, CHR 0x9D, CHR 0xE7, CHR 0xB4, CHR 0x9A]"

definition level_intermediate :: string where
  "level_intermediate =
     [CHR 0xE4, CHR 0xB8, CHR 0xAD, CHR 0xE7, CHR 0xB4, CHR 0x9A]"

definition level_advanced :: string where
  "level_advanced =
     [CHR 0xE9, CHR 0xAB, CHR 0x98, CHR 0xE7, CHR 0xB4, CHR 0x9A]"

definition fallback_suggestions :: string where
  "fallback_suggestions =
     [CHR 0xE8, CHR 0xAB, CHR 0x8B, CHR 0xE8, CHR 0xAB, CHR 0xAE, CHR 0xE8, CHR 0xA9,
      CHR 0xA2, CHR 0xE6, CHR 0xB3, CHR 0x95, CHR 0xE5, CHR 0xBE, CHR 0x8B, CHR 0xE5,
      CHR 0xB0, CHR 0x88, CHR 0xE5, CHR 0xAE, CHR 0xB6, CHR 0xE6, CHR 0x88, CHR 0x96,
      CHR 0xE4, CHR 0xBD, CHR 0xBF, CHR 0xE7, CHR 0x94, CHR 0xA8, CHR 0xE5, CHR 0xAE,
      CHR 0x8C, CHR 0xE6, CHR 0x95, CHR 0xB4]
   @ ''AI''
   @ [CHR 0xE5, CHR 0x88, CHR 0x86, CHR 0xE6, CHR 0x9E, CHR 0x90, CHR 0xE5, CHR 0x8A,
      CHR 0x9F, CHR 0xE8, CHR 0x83, CHR 0xBD]"

definition fallback_note :: string where
  "fallback_note =
     ''AI''
   @ [CHR 0xE6, CHR 0x9C, CHR 0x8D, CHR 0xE5, CHR 0x8B, CHR 0x99, CHR 0xE6, CHR 0x9A,
      CHR 0xAB, CHR 0xE6, CHR 0x99, CHR 0x82, CHR 0xE4, CHR 0xB8, CHR 0x8D, CHR 0xE5,
      CHR 0x8F, CHR 0xAF, CHR 0xE7, CHR 0x94, CHR 0xA8, CHR 0xEF, CHR 0xBC, CHR 0x8C,
      CHR 0xE4, CHR 0xBD, CHR 0xBF, CHR 0xE7, CHR 0x94, CHR 0xA8, CHR 0xE5, CHR 0x9F,
      CHR 0xBA, CHR 0xE7, CHR 0xA4, CHR 0x8E, CHR 0xE5, CHR 0x88, CHR 0x86, CHR 0xE9,
      CHR 0xA1, CHR 0x9E]"

definition fallback_key_point :: string where
  "fallback_key_point =
     [CHR 0xE9, CHR 0x9C, CHR 0x80, CHR 0xE8, CHR 0xA6, CHR 0x81, CHR 0xE5, CHR 0xAE,
      CHR 0x8C, CHR 0xE6, CHR 0x95, CHR 0xB4]
   @ ''AI''
   @ [CHR 0xE5, CHR 0x88, CHR 0x86, CHR 0xE6, CHR 0x9E, CHR 0x90, CHR 0xE5, CHR 0x8A,
      CHR 0x9F, CHR 0xE8, CHR 0x83, CHR 0xBD]"

definition fallback_approach :: string where
  "fallback_approach =
     [CHR 0xE8, CHR 0xAB, CHR 0x8B, CHR 0xE9, CHR 0x87, CHR 0x8D, CHR 0xE8, CHR 0xA9,
      CHR 0xA6, CHR 0xE6, CHR 0x88, CHR 0x96, CHR 0xE4, CHR 0xBD, CHR 0xBF, CHR 0xE7,
      CHR 0x94, CHR 0xA8, CHR 0xE6, CHR 0x89, CHR 0x8B, CHR 0xE5, CHR 0x8B, CHR 0x95,
      CHR 0xE5, CHR 0x88, CHR 0x86, CHR 0xE6, CHR 0x9E, CHR 0x90]"

definition importance_medium :: string where
  "importance_medium =
     [CHR 0xE4, CHR 0xB8, CHR 0xAD, CHR 0xE7, CHR 0xAD, CHR 0x89]"

definition choice_markers :: "string list" where
  "choice_markers =
     [[CHR 0xE9, CHR 0x81, CHR 0xB8, CHR 0xE6, CHR 0x93, CHR 0x87],
      [CHR 0xE4, CHR 0xB8, CHR 0x8B, CHR 0xE5, CHR 0x88, CHR 0x97],
      [CHR 0xE4, CHR 0xBD, CHR 0x95, CHR 0xE8, CHR 0x80, CHR 0x85],
      [CHR 0xE5, CHR 0x93, CHR 0xAA, CHR 0xE5, CHR 0x80, CHR 0x8B]]"

definition essay_markers :: "string list" where
  "essay_markers =
     [[CHR 0xE8, CHR 0xAA, CHR 0xAA, CHR 0xE6, CHR 0x98, CHR 0x8E],
      [CHR 0xE8, CHR 0xA7, CHR 0xA3, CHR 0xE9, CHR 0x87, CHR 0x8B],
      [CHR 0xE8, CHR 0xAB, CHR 0x96, CHR 0xE8, CHR 0xBF, CHR 0xB0],
      [CHR 0xE5, CHR 0x88, CHR 0x86, CHR 0xE6, CHR 0x9E, CHR 0x90]]"

definition case_markers :: "string list" where
  "case_markers =
     [[CHR 0xE6, CHR 0xA1, CHR 0x88, CHR 0xE4, CHR 0xBE, CHR 0x8B],
      [CHR 0xE4, CHR 0xBA, CHR 0x8B, CHR 0xE5, CHR 0xAF, CHR 0xA6],
      [CHR 0xE6, CHR 0x83, CHR 0x85, CHR 0xE6, CHR 0xB3, CHR 0x81],
      [CHR 0xE7, CHR 0x94, CHR 0xB2, CHR 0xE4, CHR 0xB9, CHR 0x99]]"

definition legal_keywords :: "string list" where
  "legal_keywords =
     [[CHR 0xE5, CHR 0xA5, CHR 0x91, CHR 0xE7, CHR 0xB4, CHR 0x84],
      [CHR 0xE8, CHR 0xB2, CHR 0xA1, CHR 0xE7, CHR 0x94, CHR 0xA2],
      [CHR 0xE6, CHR 0x90, CHR 0x8D, CHR 0xE5, CHR 0xAE, CHR 0xB3],
      [CHR 0xE8, CHR 0xB2, CHR 0xAC, CHR 0xE4, CHR 0xBB, CHR 0xBB],
      [CHR 0xE6, CHR 0xAC, CHR 0x8A, CHR 0xE5, CHR 0x88, CHR 0xA9],
      [CHR 0xE7, CHR 0xBE, CHR 0xA9, CHR 0xE5, CHR 0x8B, CHR 0x99],
      [CHR 0xE6, CHR 0xB3, CHR 0x95, CHR 0xE5, CHR 0xBE, CHR 0x8B],
      [CHR 0xE6, CHR 0xA2, CHR 0x9D, CHR 0xE6, CHR 0x96, CHR 0x87],
      [CHR 0xE6, CHR 0xB0, CHR 0x91, CHR 0xE6, CHR 0xB3, CHR 0x95],
      [CHR 0xE5, CHR 0x88, CHR 0x91, CHR 0xE6, CHR 0xB3, CHR 0x95],
      [CHR 0xE5, CHR 0x95, CHR 0x86, CHR 0xE6, CHR 0xA5, CHR 0xAD],
      [CHR 0xE5, CHR 0x85, CHR 0xAC, CHR 0xE5, CHR 0x8F, CHR 0xB8],
      [CHR 0xE6, CHR 0xB6, CHR 0x88, CHR 0xE8, CHR 0xB2, CHR 0xBB, CHR 0xE8, CHR 0x80,
       CHR 0x85],
      [CHR 0xE4, CHR 0xBF, CHR 0x9D, CHR 0xE8, CHR 0xAD, CHR 0xB7],
      [CHR 0xE7, CHR 0xAE, CHR 0xA1, CHR 0xE7, CHR 0x90, CHR 0x86],
      [CHR 0xE6, CHR 0xA2, CHR 0x9D, CHR 0xE4, CHR 0xBE, CHR 0x8B]]"

section \<open>Configuration\<close>

record settings =
  upload_dir :: string
  max_file_size :: int
  allowed_extensions :: string
  openai_model :: string
  ocr_engine :: string
  ocr_language :: string

section \<open>File store (utils/file_storage.py)\<close>

text \<open>The upload directory and its neighbours: a map from a path to the bytes stored there.\<close>

type_synonym file_system = "string \<rightharpoonup> string"

text \<open>
  What the operating system does to one \<open>save_file\<close> call: nothing unusual, \<open>open\<close>
  raising, or the copy raising after some bytes were written.
\<close>

datatype io_fault = NoFault | OpenFails string | CopyFails nat string

definition is_allowed_file :: "python \<Rightarrow> settings \<Rightarrow> string \<Rightarrow> bool" where
  "is_allowed_file py cfg filename =
     (if filename = [] then False
      else str_lower py (path_suffix filename) \<in> set (split_on (CHR '','') (allowed_extensions cfg)))"

definition check_file_size :: "settings \<Rightarrow> nat \<Rightarrow> bool" where
  "check_file_size cfg file_size = (int file_size \<le> max_file_size cfg)"

text \<open>\<open>uuid4\<close> is the environment's choice; the extension of the original name is kept.\<close>

definition generate_unique_filename :: "string \<Rightarrow> string \<Rightarrow> string" where
  "generate_unique_filename unique_id original_filename = unique_id @ path_suffix original_filename"

definition unlink :: "string \<Rightarrow> file_system \<Rightarrow> file_system" where
  "unlink p fs = fs(p := None)"

text \<open>The \<open>except\<close> block of \<open>save_file\<close>: remove the file when it exists, then re-raise.\<close>

definition save_cleanup :: "string \<Rightarrow> file_system \<Rightarrow> file_system" where
  "save_cleanup p fs = (if fs p \<noteq> None then unlink p fs else fs)"

definition save_file ::
  "python \<Rightarrow> settings \<Rightarrow> string \<Rightarrow> io_fault \<Rightarrow> string \<Rightarrow> string \<Rightarrow> file_system
     \<Rightarrow> (exn + string \<times> string) \<times> file_system" where
  "save_file py cfg unique_id fault payload original_filename fs =
     (if \<not> is_allowed_file py cfg original_filename
      then (Inl (ValueError (''File type not allowed: '' @ path_suffix original_filename)), fs)
      else
        let unique_filename = generate_unique_filename unique_id original_filename;
            file_path = path_join (upload_dir cfg) unique_filename
        in case fault of
             OpenFails m \<Rightarrow> (Inl (OSError m), save_cleanup file_path fs)
           | CopyFails n m \<Rightarrow>
               (Inl (OSError m), save_cleanup file_path (fs(file_path \<mapsto> take n payload)))
           | NoFault \<Rightarrow>
               let fs1 = fs(file_path \<mapsto> payload);
                   file_size = length payload
               in if \<not> check_file_size cfg file_size
                  then (Inl (ValueError (''File size exceeds limit: '' @ str_nat file_size @ '' bytes'')),
                        save_cleanup file_path (unlink file_path fs1))
                  else (Inr (unique_filename, file_path), fs1))"

definition delete_file :: "settings \<Rightarrow> string \<Rightarrow> file_system \<Rightarrow> bool \<times> file_system" where
  "delete_file cfg filename fs =
     (let file_path = path_join (upload_dir cfg) filename
      in if fs file_path \<noteq> None then (True, unlink file_path fs) else (False, fs))"

text \<open>Of the file information only the size is read by the callers.\<close>

definition get_file_info :: "settings \<Rightarrow> string \<Rightarrow> file_system \<Rightarrow> nat option" where
  "get_file_info cfg filename fs =
     (case fs (path_join (upload_dir cfg) filename) of
        None \<Rightarrow> None
      | Some bytes \<Rightarrow> Some (length bytes))"

section \<open>Text extractor (utils/ocr.py)\<close>

record extraction_metadata =
  total_pages :: nat
  meta_engine :: string
  meta_language :: string
  success :: bool
  meta_error :: "string option"

record extraction_result =
  ocr_text :: string
  ocr_pages :: "(nat \<times> string) list"
  ocr_meta :: extraction_metadata

text \<open>
  The extractor works on \<open>pathlib.Path\<close> values, given here by their strings.
  What the libraries do during one extraction: whether the engine was initialised, how many
  pages the PDF has, the page at which rendering raises (if any), the bytes of each rendered
  page, and what each engine answers for an image path (\<open>None\<close>: it raises).
\<close>

record ocr_env =
  ocr_available :: bool
  pdf_page_count :: nat
  raster_fails_at :: "nat option"
  page_image :: "nat \<Rightarrow> string"
  paddle_lines :: "string \<Rightarrow> string list option"
  tesseract_text :: "string \<Rightarrow> string option"

definition extract_text_paddleocr :: "ocr_env \<Rightarrow> string \<Rightarrow> string" where
  "extract_text_paddleocr env image_path =
     (case paddle_lines env image_path of
        None \<Rightarrow> []
      | Some ls \<Rightarrow> if ls = [] then [] else str_join [CHR 0x0A] ls)"

definition extract_text_tesseract :: "python \<Rightarrow> ocr_env \<Rightarrow> string \<Rightarrow> string" where
  "extract_text_tesseract py env image_path =
     (case tesseract_text env image_path of
        None \<Rightarrow> []
      | Some t \<Rightarrow> str_strip py t)"

definition fallback_text_extraction :: "python \<Rightarrow> string \<Rightarrow> string" where
  "fallback_text_extraction py image_path =
     (if str_contains ''pdf'' (str_lower py image_path)
      then fallback_image_label @ path_name image_path
      else fallback_file_label @ path_name image_path)"

definition extract_text_from_image :: "python \<Rightarrow> settings \<Rightarrow> ocr_env \<Rightarrow> string \<Rightarrow> string" where
  "extract_text_from_image py cfg env image_path =
     (if \<not> ocr_available env then fallback_text_extraction py image_path
      else if ocr_engine cfg = ''paddleocr'' then extract_text_paddleocr env image_path
      else if ocr_engine cfg = ''tesseract'' then extract_text_tesseract py env image_path
      else fallback_text_extraction py image_path)"

text \<open>
  \<open>_convert_pdf_to_images\<close>: one PNG per page, written beside the PDF. When a page
  raises, the \<open>except\<close> block returns the empty list; the images written for the
  earlier pages stay where they are.
\<close>

definition page_image_path :: "string \<Rightarrow> nat \<Rightarrow> string" where
  "page_image_path pdf_path page_num =
     path_join (path_parent pdf_path)
       (path_stem pdf_path @ ''_page_'' @ str_nat (page_num + 1) @ ''.png'')"

fun render_pages ::
  "ocr_env \<Rightarrow> string \<Rightarrow> nat list \<Rightarrow> string list \<Rightarrow> file_system
     \<Rightarrow> string list option \<times> file_system" where
  "render_pages env pdf_path [] image_paths fs = (Some image_paths, fs)"
| "render_pages env pdf_path (page_num # rest) image_paths fs =
     (if raster_fails_at env = Some page_num then (None, fs)
      else let image_path = page_image_path pdf_path page_num
           in render_pages env pdf_path rest (image_paths @ [image_path])
                (fs(image_path \<mapsto> page_image env page_num)))"

definition convert_pdf_to_images ::
  "ocr_env \<Rightarrow> string \<Rightarrow> file_system \<Rightarrow> string list \<times> file_system" where
  "convert_pdf_to_images env pdf_path fs =
     (case render_pages env pdf_path [0 ..< pdf_page_count env] [] fs of
        (None, fs') \<Rightarrow> ([], fs')
      | (Some image_paths, fs') \<Rightarrow> (image_paths, fs'))"

definition page_header :: "nat \<Rightarrow> string" where
  "page_header n = page_header_open @ str_nat n @ page_header_close"

text \<open>
  The page loop of \<open>extract_text_from_pdf\<close>; \<open>i\<close> is the index of \<open>enumerate\<close>.
  Every step of the loop has a handler of its own, so the outer \<open>except\<close> block is never
  entered and the error entry of the metadata stays unset.
\<close>

fun extract_pages ::
  "python \<Rightarrow> settings \<Rightarrow> ocr_env \<Rightarrow> nat \<Rightarrow> string list \<Rightarrow> file_system
     \<Rightarrow> ((nat \<times> string) list \<times> string list) \<times> file_system" where
  "extract_pages py cfg env i [] fs = (([], []), fs)"
| "extract_pages py cfg env i (image_path # rest) fs =
     (let page_text = extract_text_from_image py cfg env image_path;
          headed = (if page_text \<noteq> [] then [page_header (i + 1) @ page_text] else []);
          fs1 = unlink image_path fs
      in case extract_pages py cfg env (i + 1) rest fs1 of
           ((page_texts, all_text), fs2) \<Rightarrow>
             (((i + 1, page_text) # page_texts, headed @ all_text), fs2))"

definition extract_text_from_pdf ::
  "python \<Rightarrow> settings \<Rightarrow> ocr_env \<Rightarrow> string \<Rightarrow> file_system
     \<Rightarrow> (exn + extraction_result) \<times> file_system" where
  "extract_text_from_pdf py cfg env pdf_path fs =
     (if fs pdf_path = None
      then (Inl (FileNotFoundError (''PDF file not found: '' @ pdf_path)), fs)
      else
        let init_meta = \<lparr>total_pages = 0, meta_engine = ocr_engine cfg,
                          meta_language = ocr_language cfg, success = False, meta_error = None\<rparr>
        in case convert_pdf_to_images env pdf_path fs of
             (image_paths, fs1) \<Rightarrow>
               if image_paths = []
               then (Inr \<lparr>ocr_text = [], ocr_pages = [], ocr_meta = init_meta\<rparr>, fs1)
               else (case extract_pages py cfg env 0 image_paths fs1 of
                      ((page_texts, all_text), fs2) \<Rightarrow>
                        (Inr \<lparr>ocr_text = str_join [CHR 0x0A, CHR 0x0A] all_text,
                              ocr_pages = page_texts,
                              ocr_meta = init_meta\<lparr>total_pages := length image_paths, success := True\<rparr>\<rparr>,
                         fs2)))"

definition extract_text_async ::
  "python \<Rightarrow> settings \<Rightarrow> ocr_env \<Rightarrow> string \<Rightarrow> file_system
     \<Rightarrow> (exn + extraction_result) \<times> file_system" where
  "extract_text_async py cfg env file_path fs =
     (if str_lower py (path_suffix file_path) = ''.pdf''
      then extract_text_from_pdf py cfg env file_path fs
      else
        let t = extract_text_from_image py cfg env file_path
        in (Inr \<lparr>ocr_text = t, ocr_pages = [(1, t)],
                 ocr_meta = \<lparr>total_pages = 1, meta_engine = ocr_engine cfg,
                              meta_language = ocr_language cfg, success = (t \<noteq> []),
                              meta_error = None\<rparr>\<rparr>, fs))"

section \<open>Data model\<close>

text \<open>
  The records carry the columns that the model classes declare. Identifiers are the string
  renderings of the UUIDs, timestamps are clock readings supplied by the environment, and a
  nullable column is an \<open>option\<close>. Of \<open>Document\<close>, the column \<open>updated_at\<close>, which
  the database sets by itself whenever it writes the row, is not carried.
\<close>

record document =
  doc_id :: string
  doc_user_id :: string
  doc_filename :: string
  file_type :: string
  file_size :: nat
  storage_path :: string
  processing_status :: string
  doc_ocr_text :: "string option"
  ocr_confidence :: "string option"
  processing_started_at :: "nat option"
  processing_completed_at :: "nat option"
  error_message :: "string option"
  doc_created_at :: nat

text \<open>
  The classes derive from \<open>declarative_base()\<close>. Its constructor takes each keyword
  argument in turn and raises \<open>TypeError\<close> at the first one that names no attribute of the
  class; reading an attribute that neither the class nor the instance has raises
  \<open>AttributeError\<close>. \<open>document_attributes\<close> and \<open>legal_article_attributes\<close> are the
  names that models/document.py and models/legal_article.py give their classes.
\<close>

definition py_repr :: "string \<Rightarrow> string" where
  "py_repr s = [CHR 0x27] @ s @ [CHR 0x27]"

definition invalid_keyword :: "string \<Rightarrow> string \<Rightarrow> exn" where
  "invalid_keyword cls k = TypeError (py_repr k @ '' is an invalid keyword argument for '' @ cls)"

definition no_attribute :: "string \<Rightarrow> string \<Rightarrow> exn" where
  "no_attribute cls name =
     AttributeError (py_repr cls @ '' object has no attribute '' @ py_repr name)"

definition declarative_constructor :: "string \<Rightarrow> string list \<Rightarrow> string list \<Rightarrow> exn option" where
  "declarative_constructor cls attributes keywords =
     map_option (invalid_keyword cls) (find (\<lambda>k. k \<notin> set attributes) keywords)"

definition read_attribute :: "string \<Rightarrow> string list \<Rightarrow> string \<Rightarrow> exn option" where
  "read_attribute cls attributes name =
     (if name \<in> set attributes then None else Some (no_attribute cls name))"

definition document_attributes :: "string list" where
  "document_attributes =
     [''id'', ''user_id'', ''filename'', ''file_type'', ''file_size'', ''storage_path'',
      ''processing_status'', ''ocr_text'', ''ocr_confidence'', ''processing_started_at'',
      ''processing_completed_at'', ''error_message'', ''created_at'', ''updated_at'',
      ''user'', ''analyses'', ''__tablename__'', ''__repr__'', ''to_dict'',
      ''is_processing_complete'', ''has_ocr_text'']"

definition legal_article_attributes :: "string list" where
  "legal_article_attributes =
     [''id'', ''law_name'', ''article_number'', ''article_title'', ''article_content'',
      ''article_summary'', ''law_category'', ''subject_tags'', ''chapter'', ''section'',
      ''subsection'', ''effective_date'', ''amendment_date'', ''legal_source'', ''keywords'',
      ''related_articles'', ''created_at'', ''updated_at'', ''__tablename__'', ''__repr__'',
      ''to_dict'', ''full_citation'', ''has_summary'']"

datatype json = JNull | JBool bool | JNum real | JStr string | JList "json list"
  | JDict "(string \<times> json) list"

text \<open>The metadata dictionary built by the reasoning client.\<close>

record llm_metadata =
  model_used :: string
  llm_processing_time_ms :: real
  prompt_tokens :: "nat option"
  response_tokens :: "nat option"
  llm_success :: bool
  llm_error :: "string option"

text \<open>The two shapes of the \<open>analysis_result\<close> column and of \<open>processing_metadata\<close>.\<close>

datatype analysis_payload =
    LlmPayload string "string list" llm_metadata
  | FallbackPayload string string

datatype processing_metadata = LlmMetadata llm_metadata | MethodFallback

record similar_question =
  sq_id :: string
  sq_question_text :: string
  sq_question_type :: "string option"
  sq_similarity_score :: real

record practice_material =
  pm_title :: string
  pm_law_name :: string
  pm_article_number :: string
  pm_relevance :: string

record legal_concept =
  concept :: string
  description :: string
  importance :: string

record question_analysis =
  qa_id :: string
  qa_user_id :: string
  qa_document_id :: "string option"
  question_text :: string
  question_type :: "string option"
  question_difficulty :: "string option"
  analysis_result :: "analysis_payload option"
  confidence_score :: "real option"
  relevant_laws :: "json list option"
  legal_concepts :: "legal_concept list option"
  key_points :: "string list option"
  study_suggestions :: "string option"
  similar_questions :: "similar_question list option"
  practice_materials :: "practice_material list option"
  ai_model_used :: "string option"
  processing_time_ms :: "real option"
  user_rating :: "real option"
  user_feedback :: "string option"
  created_at :: nat
  updated_at :: nat

record legal_article =
  la_id :: string
  law_name :: string
  article_number :: string
  article_title :: "string option"
  article_content :: string

text \<open>
  The state the services share: the file system, the three tables, and the number of
  session rollbacks.
\<close>

record world =
  files :: file_system
  documents :: "document list"
  analyses :: "question_analysis list"
  legal_articles :: "legal_article list"
  rollbacks :: nat

definition update_document :: "string \<Rightarrow> (document \<Rightarrow> document) \<Rightarrow> world \<Rightarrow> world" where
  "update_document document_id f w =
     w\<lparr>documents := map (\<lambda>d. if doc_id d = document_id then f d else d) (documents w)\<rparr>"

definition truthy :: "string option \<Rightarrow> bool" where
  "truthy s = (case s of None \<Rightarrow> False | Some v \<Rightarrow> v \<noteq> [])"

section \<open>Document service (services/document_service.py)\<close>

text \<open>
  The database is read reliably; a commit can fail, and then the tables stay as they were.
  The environment of one \<open>process_document\<close> call: the two clock readings, and whether
  each of the commits that the call reaches goes through (the one that records
  \<open>processing\<close>, and the one in the \<open>except\<close> block).
\<close>

record process_env =
  proc_started :: nat
  proc_completed :: nat
  commit_started_ok :: bool
  commit_failed_ok :: bool
  proc_db_error :: string

record processing_result =
  pr_document_id :: string
  pr_processing_status :: string
  pr_extracted_text :: "string option"
  pr_page_count :: "nat option"
  pr_processing_metadata :: "extraction_metadata option"

definition get_mime_type :: "python \<Rightarrow> string \<Rightarrow> string" where
  "get_mime_type py filename =
     (case map_of
        [(''.pdf'', ''application/pdf''),
         (''.doc'', ''application/msword''),
         (''.docx'', ''application/vnd.openxmlformats-officedocument.wordprocessingml.document''),
         (''.txt'', ''text/plain''),
         (''.png'', ''image/png''),
         (''.jpg'', ''image/jpeg''),
         (''.jpeg'', ''image/jpeg'')] (str_lower py (path_suffix filename)) of
        None \<Rightarrow> ''application/octet-stream''
      | Some m \<Rightarrow> m)"

text \<open>
  The \<open>try\<close> block of \<open>process_document\<close>. Once the row is found and the
  \<open>processing\<close> status committed, line 132 reads \<open>document.file_path\<close>.
  \<open>Document\<close> has no such attribute (its path column is \<open>storage_path\<close>), so the read
  raises \<open>AttributeError\<close>: the existence check, the call of the extractor, the
  assignments of lines 141 to 152 and the second commit are never run, and the block never
  returns a result.
\<close>

definition process_body ::
  "settings \<Rightarrow> process_env \<Rightarrow> string \<Rightarrow> world \<Rightarrow> (exn + processing_result) \<times> world" where
  "process_body cfg env document_id w =
     (case find (\<lambda>d. doc_id d = document_id) (documents w) of
        None \<Rightarrow> (Inl (ValueError (''Document not found: '' @ document_id)), w)
      | Some document \<Rightarrow>
          if \<not> commit_started_ok env then (Inl (SQLAlchemyError (proc_db_error env)), w)
          else
            (Inl (no_attribute ''Document'' ''file_path''),
             update_document document_id
               (\<lambda>d. d\<lparr>processing_status := ''processing'',
                      processing_started_at := Some (proc_started env)\<rparr>) w))"

text \<open>
  The \<open>except\<close> block: the document is looked up again and marked \<open>failed\<close>; a failure
  in there is swallowed.
\<close>

definition mark_failed :: "process_env \<Rightarrow> string \<Rightarrow> exn \<Rightarrow> world \<Rightarrow> world" where
  "mark_failed env document_id e w =
     (case find (\<lambda>d. doc_id d = document_id) (documents w) of
        None \<Rightarrow> w
      | Some document \<Rightarrow>
          if \<not> commit_failed_ok env then w
          else update_document document_id
                 (\<lambda>d. d\<lparr>processing_status := ''failed'',
                        processing_completed_at := Some (proc_completed env),
                        error_message := Some (str_exn e)\<rparr>) w)"

definition process_document ::
  "settings \<Rightarrow> process_env \<Rightarrow> string \<Rightarrow> world \<Rightarrow> (exn + processing_result) \<times> world" where
  "process_document cfg env document_id w =
     (case process_body cfg env document_id w of
        (Inr r, w') \<Rightarrow> (Inr r, w')
      | (Inl e, w') \<Rightarrow>
          (Inl (RuntimeError (''Failed to process document: '' @ str_exn e)),
           mark_failed env document_id e w'))"

text \<open>The environment of one \<open>upload_document\<close> call.\<close>

record upload_env =
  up_unique_id :: string
  up_io_fault :: io_fault

record upload_result =
  ur_document_id :: string
  ur_original_filename :: string
  ur_stored_filename :: string
  ur_file_size :: nat
  ur_upload_status :: string
  ur_processing_status :: string
  ur_processed :: "processing_result option"

text \<open>
  The second \<open>except\<close> block of \<open>upload_document\<close>, reached with the stored name
  bound: the file is deleted and a \<open>RuntimeError\<close> raised.
\<close>

definition upload_cleanup :: "settings \<Rightarrow> string \<Rightarrow> exn \<Rightarrow> world \<Rightarrow> (exn + upload_result) \<times> world" where
  "upload_cleanup cfg unique_filename e w =
     (Inl (RuntimeError (''Failed to upload document: '' @ str_exn e)),
      w\<lparr>files := snd (delete_file cfg unique_filename (files w))\<rparr>)"

text \<open>The keywords of the \<open>Document(...)\<close> call of lines 63 to 72, in their order.\<close>

definition upload_keywords :: "string list" where
  "upload_keywords =
     [''user_id'', ''original_filename'', ''stored_filename'', ''file_path'', ''file_size'',
      ''mime_type'', ''upload_status'', ''processing_status'']"

text \<open>
  \<open>upload_document\<close>. With the file stored and its information read, lines 63 to 72
  call \<open>Document(...)\<close> with keywords that the class does not declare
  (\<open>original_filename\<close> is the first), so the constructor raises \<open>TypeError\<close>. The
  second \<open>except\<close> block deletes the stored file and raises \<open>RuntimeError\<close>; the
  insert, the commit, the optional processing and the return of lines 74 to 94 are never run.
\<close>

definition upload_document ::
  "python \<Rightarrow> settings \<Rightarrow> upload_env \<Rightarrow> string \<Rightarrow> string \<Rightarrow> string \<Rightarrow> bool \<Rightarrow> world
     \<Rightarrow> (exn + upload_result) \<times> world" where
  "upload_document py cfg env payload filename user_id process_immediately w =
     (if \<not> is_allowed_file py cfg filename
      then (Inl (ValueError (''File type not allowed: '' @ path_suffix filename)), w)
      else
        case save_file py cfg (up_unique_id env) (up_io_fault env) payload filename (files w) of
          (Inl e, fs1) \<Rightarrow>
            if is_ValueError e then (Inl e, w\<lparr>files := fs1\<rparr>)
            else (Inl (RuntimeError (''Failed to upload document: '' @ str_exn e)), w\<lparr>files := fs1\<rparr>)
        | (Inr (unique_filename, path), fs1) \<Rightarrow>
            let w1 = w\<lparr>files := fs1\<rparr>
            in (case get_file_info cfg unique_filename fs1 of
                 None \<Rightarrow>
                   upload_cleanup cfg unique_filename (RuntimeError ''Failed to get file information'') w1
               | Some info_size \<Rightarrow>
                   upload_cleanup cfg unique_filename
                     (invalid_keyword ''Document'' ''original_filename'') w1))"

definition get_document :: "string \<Rightarrow> string option \<Rightarrow> world \<Rightarrow> document option" where
  "get_document document_id user_id w =
     (if truthy user_id
      then find (\<lambda>d. doc_id d = document_id \<and> Some (doc_user_id d) = user_id) (documents w)
      else find (\<lambda>d. doc_id d = document_id) (documents w))"

text \<open>Newest first; the offset and the limit are those of the query.\<close>

definition get_user_documents ::
  "string \<Rightarrow> nat \<Rightarrow> nat \<Rightarrow> string option \<Rightarrow> world \<Rightarrow> document list" where
  "get_user_documents user_id limit offset status_filter w =
     (let q1 = filter (\<lambda>d. doc_user_id d = user_id) (documents w);
          q2 = (if truthy status_filter
                then filter (\<lambda>d. Some (processing_status d) = status_filter) q1 else q1)
      in take limit (drop offset (rev (sort_key doc_created_at q2))))"

text \<open>
  \<open>delete_document\<close>. For a document that \<open>get_document\<close> finds, line 261 reads
  \<open>document.stored_filename\<close>, which \<open>Document\<close> does not have: the
  \<open>AttributeError\<close> is caught by the \<open>except\<close> block, which rolls the session back
  and returns \<open>False\<close>. Neither the file nor the row is removed.
\<close>

definition delete_document :: "string \<Rightarrow> string option \<Rightarrow> world \<Rightarrow> bool \<times> world" where
  "delete_document document_id user_id w =
     (case get_document document_id user_id w of
        None \<Rightarrow> (False, w)
      | Some document \<Rightarrow> (False, w\<lparr>rollbacks := rollbacks w + 1\<rparr>))"

section \<open>Document endpoints (api/documents.py)\<close>

datatype process_response =
    StatusOnly string string string
  | ProcessingCompleted processing_result

definition api_process_document ::
  "settings \<Rightarrow> process_env \<Rightarrow> string \<Rightarrow> string \<Rightarrow> world \<Rightarrow> (exn + process_response) \<times> world" where
  "api_process_document cfg env document_id current_user_id w =
     (case get_document document_id (Some current_user_id) w of
        None \<Rightarrow> (Inl (HTTPException 404 ''Document not found''), w)
      | Some document \<Rightarrow>
          if processing_status document = ''completed''
          then (Inr (StatusOnly ''Document already processed'' document_id ''completed''), w)
          else if processing_status document = ''processing''
          then (Inr (StatusOnly ''Document processing in progress'' document_id ''processing''), w)
          else (case process_document cfg env document_id w of
                 (Inr r, w') \<Rightarrow> (Inr (ProcessingCompleted r), w')
               | (Inl e, w') \<Rightarrow> (Inl (HTTPException 500 ''Failed to process document''), w')))"

section \<open>Reasoning client (services/llm_service.py)\<close>

record legal_analysis_result =
  r_question_type :: string
  r_difficulty_level :: string
  r_relevant_laws :: "json list"
  r_legal_concepts :: "(string \<times> string) list list"
  r_key_points :: "string list"
  r_answer_approach :: string
  r_study_suggestions :: string
  r_confidence_score :: real

text \<open>
  What the language model and the output parsers do for one request: the call raises or
  answers with a text (given the question, the context and the type hint that make up the
  prompt); \<open>parser_parse\<close> and \<open>json_result\<close> give the parsed result of a text, or
  \<open>None\<close> when parsing raises.
\<close>

datatype llm_call = LlmRaises string | LlmResponds string

record llm_env =
  llm_available :: bool
  llm_respond :: "string \<Rightarrow> string option \<Rightarrow> string option \<Rightarrow> llm_call"
  parser_parse :: "string \<Rightarrow> legal_analysis_result option"
  json_result :: "string \<Rightarrow> legal_analysis_result option"
  elapsed_ms :: real
  prompt_token_count :: nat
  response_token_count :: "string \<Rightarrow> nat"

definition str_find :: "char \<Rightarrow> string \<Rightarrow> nat option" where
  "str_find c s = (if c \<in> set s then Some (length (takeWhile (\<lambda>x. x \<noteq> c) s)) else None)"

definition str_rfind :: "char \<Rightarrow> string \<Rightarrow> nat option" where
  "str_rfind c s =
     (if c \<in> set s then Some (length s - 1 - length (takeWhile (\<lambda>x. x \<noteq> c) (rev s))) else None)"

definition ultimate_fallback_result :: legal_analysis_result where
  "ultimate_fallback_result =
     \<lparr>r_question_type = type_unclassified,
      r_difficulty_level = level_intermediate,
      r_relevant_laws = [],
      r_legal_concepts = [],
      r_key_points = [text_needs_more_analysis],
      r_answer_approach = text_llm_analysis_failed,
      r_study_suggestions = text_consult_expert_or_statutes,
      r_confidence_score = 1 / 10\<rparr>"

text \<open>
  \<open>_fallback_parse\<close>: the text between the first \<open>{\<close> and the last \<open>}\<close> is tried
  as JSON; \<open>rfind\<close> plus one is never \<open>-1\<close>, so only a missing \<open>{\<close> skips the attempt.
\<close>

definition fallback_parse :: "llm_env \<Rightarrow> string \<Rightarrow> legal_analysis_result" where
  "fallback_parse env response_text =
     (case str_find (CHR ''{'') response_text of
        None \<Rightarrow> ultimate_fallback_result
      | Some start_idx \<Rightarrow>
          let end_idx = (case str_rfind (CHR ''}'') response_text of None \<Rightarrow> 0 | Some j \<Rightarrow> j + 1);
              json_str = take (end_idx - start_idx) (drop start_idx response_text)
          in (case json_result env json_str of
                None \<Rightarrow> ultimate_fallback_result
              | Some r \<Rightarrow> r))"

definition get_fallback_result :: "string \<Rightarrow> legal_analysis_result" where
  "get_fallback_result qtext =
     \<lparr>r_question_type = type_pending,
      r_difficulty_level = level_unknown,
      r_relevant_laws = [],
      r_legal_concepts = [],
      r_key_points = [text_cannot_analyse_now],
      r_answer_approach = text_retry_or_support,
      r_study_suggestions = text_consult_textbooks,
      r_confidence_score = 0\<rparr>"

text \<open>
  \<open>analyze_legal_question\<close>: it raises only when the client was never initialised. A
  failing call is caught inside: the placeholder result comes back with metadata whose
  success flag is false.
\<close>

definition analyze_legal_question ::
  "settings \<Rightarrow> llm_env \<Rightarrow> string \<Rightarrow> string option \<Rightarrow> string option
     \<Rightarrow> exn + legal_analysis_result \<times> llm_metadata" where
  "analyze_legal_question cfg env qtext context question_type_hint =
     (if \<not> llm_available env then Inl (RuntimeError ''LLM service not available'')
      else
        case llm_respond env qtext context question_type_hint of
          LlmRaises m \<Rightarrow>
            Inr (get_fallback_result qtext,
                 \<lparr>model_used = openai_model cfg, llm_processing_time_ms = elapsed_ms env,
                  prompt_tokens = None, response_tokens = None,
                  llm_success = False, llm_error = Some m\<rparr>)
        | LlmResponds response_text \<Rightarrow>
            let parsed =
                  (case parser_parse env response_text of
                     Some r \<Rightarrow> r
                   | None \<Rightarrow> fallback_parse env response_text)
            in Inr (parsed,
                    \<lparr>model_used = openai_model cfg, llm_processing_time_ms = elapsed_ms env,
                     prompt_tokens = Some (prompt_token_count env),
                     response_tokens = Some (response_token_count env response_text),
                     llm_success = True, llm_error = None\<rparr>))"

section \<open>Analysis service (services/analysis_service.py)\<close>

text \<open>\<open>len\<close> and slicing count code points: the bytes that are not UTF-8 continuations.\<close>

definition is_continuation :: "char \<Rightarrow> bool" where
  "is_continuation c = ((of_char c :: nat) div 64 = 2)"

definition str_len :: "string \<Rightarrow> nat" where
  "str_len s = length (filter (\<lambda>c. \<not> is_continuation c) s)"

fun str_take :: "nat \<Rightarrow> string \<Rightarrow> string" where
  "str_take n [] = []"
| "str_take n (c # cs) =
     (if is_continuation c then c # str_take n cs
      else (case n of 0 \<Rightarrow> [] | Suc m \<Rightarrow> c # str_take m cs))"

definition classify_question_basic :: "python \<Rightarrow> string \<Rightarrow> string" where
  "classify_question_basic py qtext =
     (let text_lower = str_lower py qtext in
      if list_ex (\<lambda>keyword. str_contains keyword text_lower) choice_markers
      then type_choice
      else if list_ex (\<lambda>keyword. str_contains keyword text_lower) essay_markers
      then type_essay
      else if list_ex (\<lambda>keyword. str_contains keyword text_lower) case_markers
      then type_case
      else if str_contains ''?'' qtext \<or> str_contains fullwidth_question_mark qtext
      then type_short_answer
      else type_unclassified)"

definition estimate_difficulty_basic :: "string \<Rightarrow> string" where
  "estimate_difficulty_basic qtext =
     (let word_count = str_len qtext in
      if word_count < 50 then level_basic
      else if word_count < 150 then level_intermediate
      else level_advanced)"

text \<open>
  The outcome of one insert (\<open>add\<close>, \<open>commit\<close>, \<open>refresh\<close>) of an analysis row:
  the identifier and the clock reading the row gets, and whether the database accepts it.
  The database refuses the row when it cannot be reached and when a constraint of the table
  is violated; one is the foreign key of \<open>document_id\<close>, which the service passes on
  as the request gave it.
\<close>

record insert_env =
  new_id :: string
  new_now :: nat
  insert_ok :: bool
  insert_error :: string

record analysis_summary =
  out_analysis_id :: string
  out_question_type :: string
  out_difficulty_level :: string
  out_confidence_score :: real
  out_relevant_laws :: "json list"
  out_legal_concepts :: "legal_concept list"
  out_key_points :: "string list"
  out_answer_approach :: string
  out_study_suggestions :: string
  out_processing_metadata :: processing_metadata
  out_created_at :: nat

definition fallback_row ::
  "python \<Rightarrow> insert_env \<Rightarrow> string \<Rightarrow> string \<Rightarrow> string option \<Rightarrow> question_analysis" where
  "fallback_row py env qtext user_id document_id =
     \<lparr>qa_id = new_id env, qa_user_id = user_id, qa_document_id = document_id,
      question_text = qtext,
      question_type = Some (classify_question_basic py qtext),
      question_difficulty = Some (estimate_difficulty_basic qtext),
      analysis_result =
        Some (FallbackPayload ''fallback'' fallback_note),
      confidence_score = Some (3 / 10),
      relevant_laws = None, legal_concepts = None, key_points = None,
      study_suggestions = Some fallback_suggestions,
      similar_questions = None, practice_materials = None,
      ai_model_used = Some ''fallback_classifier'',
      processing_time_ms = None, user_rating = None, user_feedback = None,
      created_at = new_now env, updated_at = new_now env\<rparr>"

definition fallback_analysis ::
  "python \<Rightarrow> insert_env \<Rightarrow> string \<Rightarrow> string \<Rightarrow> string option \<Rightarrow> world
     \<Rightarrow> (exn + analysis_summary) \<times> world" where
  "fallback_analysis py env qtext user_id document_id w =
     (let question_analysis = fallback_row py env qtext user_id document_id in
      if \<not> insert_ok env then (Inl (SQLAlchemyError (insert_error env)), w)
      else
        (Inr \<lparr>out_analysis_id = qa_id question_analysis,
              out_question_type = classify_question_basic py qtext,
              out_difficulty_level = estimate_difficulty_basic qtext,
              out_confidence_score = 3 / 10,
              out_relevant_laws = [],
              out_legal_concepts = [],
              out_key_points = [fallback_key_point],
              out_answer_approach = fallback_approach,
              out_study_suggestions = fallback_suggestions,
              out_processing_metadata = MethodFallback,
              out_created_at = created_at question_analysis\<rparr>,
         w\<lparr>analyses := analyses w @ [question_analysis]\<rparr>))"

definition extract_keywords :: "string \<Rightarrow> string list" where
  "extract_keywords t = filter (\<lambda>keyword. str_contains keyword t) legal_keywords"

definition find_similar_analyses :: "question_analysis \<Rightarrow> nat \<Rightarrow> world \<Rightarrow> question_analysis list" where
  "find_similar_analyses target_analysis limit w =
     take limit
       (filter (\<lambda>a. qa_id a \<noteq> qa_id target_analysis
                    \<and> question_type a = question_type target_analysis
                    \<and> (case confidence_score a of None \<Rightarrow> False | Some c \<Rightarrow> c > 1 / 2))
          (analyses w))"

text \<open>
  \<open>_find_relevant_articles\<close>. Without a keyword the result is empty. With one, the query
  for the first keyword reads \<open>LegalArticle.content\<close>, which the class does not declare
  (its text column is \<open>article_content\<close>): the \<open>AttributeError\<close> is caught by the
  \<open>except\<close> block, which returns the empty list as well. The table is never queried.
\<close>

definition find_relevant_articles :: "string \<Rightarrow> nat \<Rightarrow> world \<Rightarrow> legal_article list" where
  "find_relevant_articles qtext limit w =
     (let keywords = extract_keywords qtext in
      if keywords = [] then []
      else [])"

text \<open>
  \<open>_enhance_analysis\<close>: the annotation of the new row with its similar questions, then
  the commit; a failing commit is logged and the row stays as it was. The list of relevant
  articles is always empty, so the assignment of \<open>practice_materials\<close> (which would
  read \<open>article.title\<close>, another name the class does not declare, and end in the
  \<open>except\<close> block before the commit) is never reached.
\<close>

definition enhance_analysis :: "bool \<Rightarrow> question_analysis \<Rightarrow> world \<Rightarrow> world" where
  "enhance_analysis commit_ok question_analysis w =
     (let similar = find_similar_analyses question_analysis 5 w;
          set_similar =
            (\<lambda>a. if similar \<noteq> []
                  then a\<lparr>similar_questions :=
                          Some (map (\<lambda>s. \<lparr>sq_id = qa_id s,
                                           sq_question_text = str_take 100 (question_text s) @ ''...'',
                                           sq_question_type = question_type s,
                                           sq_similarity_score = 7 / 10\<rparr>) (take 3 similar))\<rparr>
                  else a);
          relevant_articles = find_relevant_articles (question_text question_analysis) 5 w
      in if relevant_articles \<noteq> [] then w
         else if \<not> commit_ok then w
         else w\<lparr>analyses :=
                  map (\<lambda>a. if qa_id a = qa_id question_analysis then set_similar a else a)
                    (analyses w)\<rparr>)"

definition dict_get :: "(string \<times> string) list \<Rightarrow> string \<Rightarrow> string \<Rightarrow> string" where
  "dict_get d k dflt = (case map_of d k of None \<Rightarrow> dflt | Some v \<Rightarrow> v)"

definition concept_entry :: "(string \<times> string) list \<Rightarrow> legal_concept" where
  "concept_entry c =
     \<lparr>concept = dict_get c ''concept'' [],
      description = dict_get c ''description'' [],
      importance = dict_get c ''importance'' importance_medium\<rparr>"

text \<open>
  The environment of one \<open>analyze_question\<close> call: the reasoning client, the insert of the
  primary row, the commit of the enrichment, and the inserts of the fallback row (the one
  tried first when the client is unavailable, and the one in the \<open>except\<close> block).
\<close>

record analyze_env =
  an_llm :: llm_env
  an_primary :: insert_env
  an_enhance_commit_ok :: bool
  an_fallback_first :: insert_env
  an_fallback_retry :: insert_env

text \<open>The \<open>try\<close> block of \<open>analyze_question\<close>.\<close>

definition analyze_try ::
  "python \<Rightarrow> settings \<Rightarrow> analyze_env \<Rightarrow> string \<Rightarrow> string \<Rightarrow> string option \<Rightarrow> string option
     \<Rightarrow> string option \<Rightarrow> world \<Rightarrow> (exn + analysis_summary) \<times> world" where
  "analyze_try py cfg env qtext user_id document_id context question_type_hint w =
     (if \<not> llm_available (an_llm env)
      then fallback_analysis py (an_fallback_first env) qtext user_id document_id w
      else
        case analyze_legal_question cfg (an_llm env) qtext context question_type_hint of
          Inl e \<Rightarrow> (Inl e, w)
        | Inr (res, metadata) \<Rightarrow>
            let legal_concepts_list = map concept_entry (r_legal_concepts res);
                question_analysis =
                  \<lparr>qa_id = new_id (an_primary env), qa_user_id = user_id,
                   qa_document_id = document_id,
                   question_text = qtext,
                   question_type = Some (r_question_type res),
                   question_difficulty = Some (r_difficulty_level res),
                   analysis_result =
                     Some (LlmPayload (r_answer_approach res)
                             (r_key_points res) metadata),
                   confidence_score = Some (r_confidence_score res),
                   relevant_laws = Some (r_relevant_laws res),
                   legal_concepts = Some legal_concepts_list,
                   key_points = Some (r_key_points res),
                   study_suggestions = Some (r_study_suggestions res),
                   similar_questions = None, practice_materials = None,
                   ai_model_used = Some (model_used metadata),
                   processing_time_ms = Some (llm_processing_time_ms metadata),
                   user_rating = None, user_feedback = None,
                   created_at = new_now (an_primary env),
                   updated_at = new_now (an_primary env)\<rparr>
            in if \<not> insert_ok (an_primary env)
               then (Inl (SQLAlchemyError (insert_error (an_primary env))), w)
               else
                 (Inr \<lparr>out_analysis_id = qa_id question_analysis,
                       out_question_type = r_question_type res,
                       out_difficulty_level = r_difficulty_level res,
                       out_confidence_score = r_confidence_score res,
                       out_relevant_laws = r_relevant_laws res,
                       out_legal_concepts = legal_concepts_list,
                       out_key_points = r_key_points res,
                       out_answer_approach = r_answer_approach res,
                       out_study_suggestions = r_study_suggestions res,
                       out_processing_metadata = LlmMetadata metadata,
                       out_created_at = created_at question_analysis\<rparr>,
                  enhance_analysis (an_enhance_commit_ok env) question_analysis
                    (w\<lparr>analyses := analyses w @ [question_analysis]\<rparr>)))"

text \<open>
  \<open>analyze_question\<close>: whatever the \<open>try\<close> block raises is answered by a rollback and
  the fallback analysis, whose own failure is the caller's.
\<close>

definition analyze_question ::
  "python \<Rightarrow> settings \<Rightarrow> analyze_env \<Rightarrow> string \<Rightarrow> string \<Rightarrow> string option \<Rightarrow> string option
     \<Rightarrow> string option \<Rightarrow> world \<Rightarrow> (exn + analysis_summary) \<times> world" where
  "analyze_question py cfg env qtext user_id document_id context question_type_hint w =
     (case analyze_try py cfg env qtext user_id document_id context question_type_hint w of
        (Inr r, w') \<Rightarrow> (Inr r, w')
      | (Inl e, w') \<Rightarrow>
          fallback_analysis py (an_fallback_retry env) qtext user_id document_id
            (w'\<lparr>rollbacks := rollbacks w' + 1\<rparr>))"

definition get_analysis :: "string \<Rightarrow> string \<Rightarrow> world \<Rightarrow> question_analysis option" where
  "get_analysis analysis_id user_id w =
     find (\<lambda>a. qa_id a = analysis_id \<and> qa_user_id a = user_id) (analyses w)"

definition get_user_analyses ::
  "string \<Rightarrow> nat \<Rightarrow> nat \<Rightarrow> string option \<Rightarrow> world \<Rightarrow> question_analysis list" where
  "get_user_analyses user_id limit offset question_type_filter w =
     (let q1 = filter (\<lambda>a. qa_user_id a = user_id) (analyses w);
          q2 = (if truthy question_type_filter
                then filter (\<lambda>a. question_type a = question_type_filter) q1 else q1)
      in take limit (drop offset (rev (sort_key created_at q2))))"

text \<open>The clock reading and the commit outcome of one \<open>rate_analysis\<close> call.\<close>

record rate_env =
  rate_now :: nat
  rate_commit_ok :: bool

definition rate_analysis ::
  "rate_env \<Rightarrow> string \<Rightarrow> string \<Rightarrow> real \<Rightarrow> string option \<Rightarrow> world \<Rightarrow> bool \<times> world" where
  "rate_analysis env analysis_id user_id rating feedback w =
     (case get_analysis analysis_id user_id w of
        None \<Rightarrow> (False, w)
      | Some analysis \<Rightarrow>
          if \<not> rate_commit_ok env then (False, w\<lparr>rollbacks := rollbacks w + 1\<rparr>)
          else (True,
                w\<lparr>analyses :=
                    map (\<lambda>a. if qa_id a = qa_id analysis
                              then a\<lparr>user_rating := Some rating, user_feedback := feedback,
                                     updated_at := rate_now env\<rparr>
                              else a) (analyses w)\<rparr>))"

section \<open>Analysis endpoints (api/analysis.py)\<close>

text \<open>
  \<open>AnalysisRatingRequest\<close>: the request body is validated before the handler runs; a
  rating outside \<open>[1, 5]\<close> or a feedback longer than 1000 characters is answered with 422.
\<close>

definition valid_rating_request :: "real \<Rightarrow> string option \<Rightarrow> bool" where
  "valid_rating_request rating feedback =
     (1 \<le> rating \<and> rating \<le> 5
      \<and> (case feedback of None \<Rightarrow> True | Some f \<Rightarrow> str_len f \<le> 1000))"

record rating_response =
  rr_message :: string
  rr_analysis_id :: string
  rr_rating :: real

definition api_rate_analysis ::
  "rate_env \<Rightarrow> string \<Rightarrow> real \<Rightarrow> string option \<Rightarrow> string \<Rightarrow> world
     \<Rightarrow> (exn + rating_response) \<times> world" where
  "api_rate_analysis env analysis_id rating feedback current_user_id w =
     (if \<not> valid_rating_request rating feedback
      then (Inl (HTTPException 422 ''Unprocessable Entity''), w)
      else
        case rate_analysis env analysis_id current_user_id rating feedback w of
          (False, w') \<Rightarrow> (Inl (HTTPException 404 ''Analysis not found or could not be rated''), w')
        | (True, w') \<Rightarrow>
            (Inr \<lparr>rr_message = ''Analysis rated successfully'', rr_analysis_id = analysis_id,
                  rr_rating = rating\<rparr>, w'))"

section \<open>States of the document pipeline\<close>

text \<open>
  The invariant of a document row as the specification words it: a text only on a
  \<open>completed\<close> document, an error message only on a \<open>failed\<close> one.
\<close>

definition specified_invariant :: "document \<Rightarrow> bool" where
  "specified_invariant d =
     ((doc_ocr_text d \<noteq> None \<longrightarrow> processing_status d = ''completed'')
      \<and> (error_message d \<noteq> None \<longrightarrow> processing_status d = ''failed''))"


text \<open>
  The states that the operations bring about, under any behaviour of the environment, from
  a state whose rows have distinct identifiers (the primary key) and satisfy the invariant
  as specified. \<open>process_document\<close> is entered through its endpoint.
\<close>

inductive reachable :: "python \<Rightarrow> settings \<Rightarrow> world \<Rightarrow> bool"
  for py :: python and cfg :: settings where
  start: "distinct (map doc_id (documents w)) \<Longrightarrow> list_all specified_invariant (documents w)
     \<Longrightarrow> reachable py cfg w"
| upload: "reachable py cfg w \<Longrightarrow>
     reachable py cfg (snd (upload_document py cfg env payload filename user_id process_immediately w))"
| api_process: "reachable py cfg w \<Longrightarrow>
     reachable py cfg (snd (api_process_document cfg penv document_id user_id w))"
| delete: "reachable py cfg w \<Longrightarrow> reachable py cfg (snd (delete_document document_id uid w))"
| analyze: "reachable py cfg w \<Longrightarrow>
     reachable py cfg (snd (analyze_question py cfg aenv qtext user_id doc context hint w))"
| rate: "reachable py cfg w \<Longrightarrow>
     reachable py cfg (snd (rate_analysis renv analysis_id user_id rating feedback w))"

section \<open>Example inputs\<close>

text \<open>
  A runtime for the example inputs: \<open>lower\<close> acts on the letters A to Z and
  \<open>strip\<close> on the ASCII white space. These are the values of \<open>str.lower()\<close> and
  \<open>str.strip()\<close> on a text whose characters outside ASCII are caseless and no white
  space, such as the ASCII file names and the Chinese question used below.
\<close>

definition lower_char :: "char \<Rightarrow> char" where
  "lower_char c =
     (case map_of (zip ''ABCDEFGHIJKLMNOPQRSTUVWXYZ'' ''abcdefghijklmnopqrstuvwxyz'') c of
        None \<Rightarrow> c
      | Some l \<Rightarrow> l)"

definition is_space :: "char \<Rightarrow> bool" where
  "is_space c = (let n = (of_char c :: nat) in (9 \<le> n \<and> n \<le> 13) \<or> (28 \<le> n \<and> n \<le> 32))"

definition ascii_python :: python where
  "ascii_python =
     \<lparr>str_lower = map lower_char,
      str_strip = (\<lambda>s. rev (dropWhile is_space (rev (dropWhile is_space s))))\<rparr>"

text \<open>
  A deployment that accepts PDF files of at most eight bytes; the empty state; a state with
  one stored PDF and its row, as a writer of the table leaves it, and the same state with
  the document failed and completed; the environments of the runs evaluated below: a
  database that is lost before the failure of a processing can be recorded, a two-page PDF
  whose second page fails to render, the same PDF rendering well, a language model whose
  call raises, a reasoning client that was never initialised, and a database that refuses
  the analysis row of a request whose \<open>document_id\<close> names no document.
\<close>

definition example_settings :: settings where
  "example_settings =
     \<lparr>upload_dir = ''data/uploads'', max_file_size = 8, allowed_extensions = ''.pdf'',
      openai_model = ''gpt-4'', ocr_engine = ''paddleocr'', ocr_language = ''ch_tra''\<rparr>"

definition empty_world :: world where
  "empty_world =
     \<lparr>files = Map.empty, documents = [], analyses = [], legal_articles = [], rollbacks = 0\<rparr>"

definition example_upload_env :: upload_env where
  "example_upload_env = \<lparr>up_unique_id = ''u1'', up_io_fault = NoFault\<rparr>"

definition example_process_env :: process_env where
  "example_process_env =
     \<lparr>proc_started = 2, proc_completed = 3, commit_started_ok = True, commit_failed_ok = True,
      proc_db_error = ''connection lost''\<rparr>"


definition stored_document :: document where
  "stored_document =
     \<lparr>doc_id = ''d1'', doc_user_id = ''alice'', doc_filename = ''exam.pdf'',
      file_type = ''application/pdf'', file_size = 4, storage_path = ''data/uploads/u1.pdf'',
      processing_status = ''uploaded'', doc_ocr_text = None, ocr_confidence = None,
      processing_started_at = None, processing_completed_at = None, error_message = None,
      doc_created_at = 1\<rparr>"

definition failed_document :: document where
  "failed_document =
     \<lparr>doc_id = ''d1'', doc_user_id = ''alice'', doc_filename = ''exam.pdf'',
      file_type = ''application/pdf'', file_size = 4, storage_path = ''data/uploads/u1.pdf'',
      processing_status = ''failed'', doc_ocr_text = None, ocr_confidence = None,
      processing_started_at = Some 2, processing_completed_at = Some 3,
      error_message = Some (str_exn (no_attribute ''Document'' ''file_path'')),
      doc_created_at = 1\<rparr>"

definition completed_document :: document where
  "completed_document =
     \<lparr>doc_id = ''d1'', doc_user_id = ''alice'', doc_filename = ''exam.pdf'',
      file_type = ''application/pdf'', file_size = 4, storage_path = ''data/uploads/u1.pdf'',
      processing_status = ''completed'', doc_ocr_text = Some ''text'', ocr_confidence = None,
      processing_started_at = Some 2, processing_completed_at = Some 3, error_message = None,
      doc_created_at = 1\<rparr>"

definition world_with :: "document \<Rightarrow> world" where
  "world_with d =
     \<lparr>files = [''data/uploads/u1.pdf'' \<mapsto> ''%PDF''], documents = [d], analyses = [],
      legal_articles = [], rollbacks = 0\<rparr>"

definition stored_world :: world where
  "stored_world = world_with stored_document"

definition failed_world :: world where
  "failed_world = world_with failed_document"

definition completed_world :: world where
  "completed_world = world_with completed_document"


definition working_ocr :: ocr_env where
  "working_ocr =
     \<lparr>ocr_available = True, pdf_page_count = 2, raster_fails_at = None,
      page_image = (\<lambda>n. ''PNG''), paddle_lines = (\<lambda>p. Some [''text'']),
      tesseract_text = (\<lambda>p. None)\<rparr>"

definition failing_ocr :: ocr_env where
  "failing_ocr = working_ocr\<lparr>raster_fails_at := Some 1\<rparr>"

definition example_insert :: "string \<Rightarrow> insert_env" where
  "example_insert i = \<lparr>new_id = i, new_now = 5, insert_ok = True, insert_error = ''connection lost''\<rparr>"

definition failing_llm :: llm_env where
  "failing_llm =
     \<lparr>llm_available = True, llm_respond = (\<lambda>q c h. LlmRaises ''Request timed out''),
      parser_parse = (\<lambda>t. None), json_result = (\<lambda>t. None), elapsed_ms = 60000,
      prompt_token_count = 0, response_token_count = (\<lambda>t. 0)\<rparr>"

definition unavailable_llm :: llm_env where
  "unavailable_llm = failing_llm\<lparr>llm_available := False\<rparr>"

definition example_analyze_env :: "llm_env \<Rightarrow> analyze_env" where
  "example_analyze_env llm =
     \<lparr>an_llm = llm, an_primary = example_insert ''a1'', an_enhance_commit_ok = True,
      an_fallback_first = example_insert ''a2'', an_fallback_retry = example_insert ''a3''\<rparr>"

text \<open>The question of the scenario: which of the following is a requirement of a valid contract?\<close>

definition example_question :: string where
  "example_question =
     [CHR 0xE4, CHR 0xB8, CHR 0x8B, CHR 0xE5, CHR 0x88, CHR 0x97, CHR 0xE4, CHR 0xBD, CHR 0x95,
      CHR 0xE8, CHR 0x80, CHR 0x85, CHR 0xE7, CHR 0x82, CHR 0xBA, CHR 0xE6, CHR 0xAD, CHR 0xA3,
      CHR 0xE7, CHR 0xA2, CHR 0xBA, CHR 0xE7, CHR 0x9A, CHR 0x84, CHR 0xE5, CHR 0xA5, CHR 0x91,
      CHR 0xE7, CHR 0xB4, CHR 0x84, CHR 0xE6, CHR 0x88, CHR 0x90, CHR 0xE7, CHR 0xAB, CHR 0x8B,
      CHR 0xE8, CHR 0xA6, CHR 0x81, CHR 0xE4, CHR 0xBB, CHR 0xB6, CHR 0xEF, CHR 0xBC, CHR 0x9F]"

definition fallback_run :: "(exn + analysis_summary) \<times> world" where
  "fallback_run =
     analyze_question ascii_python example_settings (example_analyze_env unavailable_llm)
       example_question ''alice'' None None None empty_world"

definition analysed_world :: world where
  "analysed_world = snd fallback_run"

definition llm_failure_run :: "(exn + analysis_summary) \<times> world" where
  "llm_failure_run =
     analyze_question ascii_python example_settings (example_analyze_env failing_llm)
       example_question ''alice'' None None None empty_world"

definition failing_primary_insert :: analyze_env where
  "failing_primary_insert =
     (example_analyze_env failing_llm)\<lparr>an_primary := (example_insert ''a1'')\<lparr>insert_ok := False\<rparr>\<rparr>"

definition refused_insert :: "string \<Rightarrow> insert_env" where
  "refused_insert i =
     \<lparr>new_id = i, new_now = 5, insert_ok = False,
      insert_error = ''violates foreign key constraint on document_id''\<rparr>"

definition dangling_document_env :: analyze_env where
  "dangling_document_env =
     \<lparr>an_llm = unavailable_llm, an_primary = example_insert ''a1'', an_enhance_commit_ok = True,
      an_fallback_first = refused_insert ''a2'', an_fallback_retry = refused_insert ''a3''\<rparr>"

definition example_rate_env :: rate_env where
  "example_rate_env = \<lparr>rate_now = 9, rate_commit_ok = True\<rparr>"

section \<open>The declared classes\<close>

text \<open>
  The keywords and attributes that the document service and the enrichment use and that
  the classes do not declare.
\<close>

lemma document_constructor_raises:
  "declarative_constructor ''Document'' document_attributes upload_keywords
     = Some (invalid_keyword ''Document'' ''original_filename'')"
  by (simp add: declarative_constructor_def document_attributes_def upload_keywords_def)

lemma undeclared_attributes:
  "read_attribute ''Document'' document_attributes ''file_path''
     = Some (no_attribute ''Document'' ''file_path'')"
  "read_attribute ''Document'' document_attributes ''stored_filename''
     = Some (no_attribute ''Document'' ''stored_filename'')"
  "read_attribute ''LegalArticle'' legal_article_attributes ''content''
     = Some (no_attribute ''LegalArticle'' ''content'')"
  by (simp_all add: read_attribute_def document_attributes_def legal_article_attributes_def)

section \<open>File store and upload\<close>

lemma find_Some_set: "find P xs = Some x \<Longrightarrow> P x \<and> x \<in> set xs"
  by (induction xs) (auto split: if_splits)

lemma find_None_set: "find P xs = None \<longleftrightarrow> (\<forall>x\<in>set xs. \<not> P x)"
  by (induction xs) auto

text \<open>
  C5. A filename whose extension is not in the configured allow-list is refused by
  \<open>upload_document\<close> with a \<open>ValueError\<close>, and the state is the one before the call:
  no file was written and no document row created.
\<close>

theorem upload_rejects_disallowed_extension:
  assumes "str_lower py (path_suffix filename) \<notin> set (split_on (CHR '','') (allowed_extensions cfg))"
  shows "upload_document py cfg env payload filename user_id process_immediately w =
           (Inl (ValueError (''File type not allowed: '' @ path_suffix filename)), w)"
  using assms by (simp add: upload_document_def is_allowed_file_def)

lemma save_file_oversized:
  assumes "max_file_size cfg < int (length payload)"
  shows "\<exists>e fs'. save_file py cfg uid fault payload name fs = (Inl e, fs')
           \<and> (\<forall>p. fs' p \<noteq> None \<longrightarrow> fs' p = fs p)
           \<and> (is_allowed_file py cfg name \<longrightarrow>
                fs' (path_join (upload_dir cfg) (generate_unique_filename uid name)) = None)"
  using assms
  by (cases fault) (auto simp: save_file_def save_cleanup_def unlink_def check_file_size_def Let_def)

text \<open>
  C6. A payload longer than the configured maximum makes \<open>save_file\<close> and
  \<open>upload_document\<close> fail, whatever else happens during the write. Afterwards the store
  holds no file that was not there before with the same content, nothing is stored under
  the generated name, and no document row was created.
\<close>

theorem oversized_payload_removed:
  assumes "max_file_size cfg < int (length payload)"
  shows "(\<exists>e fs'. save_file py cfg uid fault payload filename fs = (Inl e, fs')
            \<and> (\<forall>p. fs' p \<noteq> None \<longrightarrow> fs' p = fs p)
            \<and> (is_allowed_file py cfg filename \<longrightarrow>
                 fs' (path_join (upload_dir cfg) (generate_unique_filename uid filename)) = None))
         \<and> (\<exists>e w'. upload_document py cfg env payload filename user_id process_immediately w = (Inl e, w')
            \<and> documents w' = documents w
            \<and> (\<forall>p. files w' p \<noteq> None \<longrightarrow> files w' p = files w p)
            \<and> (is_allowed_file py cfg filename \<longrightarrow>
                 files w' (path_join (upload_dir cfg)
                             (generate_unique_filename (up_unique_id env) filename)) = None))"
proof
  show "\<exists>e fs'. save_file py cfg uid fault payload filename fs = (Inl e, fs')
           \<and> (\<forall>p. fs' p \<noteq> None \<longrightarrow> fs' p = fs p)
           \<and> (is_allowed_file py cfg filename \<longrightarrow>
                fs' (path_join (upload_dir cfg) (generate_unique_filename uid filename)) = None)"
    by (rule save_file_oversized [OF assms])
next
  obtain e fs' where
    s: "save_file py cfg (up_unique_id env) (up_io_fault env) payload filename (files w) = (Inl e, fs')"
    and keep: "\<forall>p. fs' p \<noteq> None \<longrightarrow> fs' p = files w p"
    and gone: "is_allowed_file py cfg filename \<longrightarrow>
                fs' (path_join (upload_dir cfg)
                       (generate_unique_filename (up_unique_id env) filename)) = None"
    using save_file_oversized [OF assms] by blast
  show "\<exists>e w'. upload_document py cfg env payload filename user_id process_immediately w = (Inl e, w')
           \<and> documents w' = documents w
           \<and> (\<forall>p. files w' p \<noteq> None \<longrightarrow> files w' p = files w p)
           \<and> (is_allowed_file py cfg filename \<longrightarrow>
                files w' (path_join (upload_dir cfg)
                            (generate_unique_filename (up_unique_id env) filename)) = None)"
    using s keep gone by (auto simp: upload_document_def)
qed



section \<open>The upload properties on the example inputs\<close>

lemma example_settings_sel:
  "upload_dir example_settings = ''data/uploads''"
  "max_file_size example_settings = 8"
  "allowed_extensions example_settings = ''.pdf''"
  "openai_model example_settings = ''gpt-4''"
  "ocr_engine example_settings = ''paddleocr''"
  "ocr_language example_settings = ''ch_tra''"
  by (simp_all add: example_settings_def)

lemma example_paths:
  "path_suffix ''exam.pdf'' = ''.pdf''"
  "path_suffix ''notes.exe'' = ''.exe''"
  "path_suffix ''data/uploads/u1.pdf'' = ''.pdf''"
  "path_stem ''data/uploads/u1.pdf'' = ''u1''"
  "path_parent ''data/uploads/u1.pdf'' = ''data/uploads''"
  "path_join ''data/uploads'' ''u1.pdf'' = ''data/uploads/u1.pdf''"
  "path_join ''data/uploads/'' ''u1.pdf'' = ''data/uploads/u1.pdf''"
  by (simp_all add: path_suffix_def path_stem_def path_parent_def path_name_def last_dot_def
        path_join_def path_of_def path_str_def path_root_def path_parts_def)

lemma example_lower:
  "str_lower ascii_python ''.pdf'' = ''.pdf''" "str_lower ascii_python ''.exe'' = ''.exe''"
  by (simp_all add: ascii_python_def lower_char_def)

lemma example_allowed: "is_allowed_file ascii_python example_settings ''exam.pdf''"
  by (simp add: is_allowed_file_def example_paths example_lower example_settings_sel)

theorem upload_rejects_disallowed_extension_witness:
  "str_lower ascii_python (path_suffix ''notes.exe'')
      \<notin> set (split_on (CHR '','') (allowed_extensions example_settings))
   \<and> upload_document ascii_python example_settings example_upload_env ''MZ'' ''notes.exe'' ''alice''
        True empty_world
      = (Inl (ValueError ''File type not allowed: .exe''), empty_world)"
proof -
  have h: "str_lower ascii_python (path_suffix ''notes.exe'')
             \<notin> set (split_on (CHR '','') (allowed_extensions example_settings))"
    by (simp add: example_paths example_lower example_settings_sel)
  show ?thesis
    using h upload_rejects_disallowed_extension [OF h, of example_upload_env "''MZ''"
        "''alice''" True empty_world]
    by (simp add: example_paths)
qed

lemma example_upload_env_sel:
  "up_unique_id example_upload_env = ''u1''"
  "up_io_fault example_upload_env = NoFault"
  by (simp_all add: example_upload_env_def)

theorem oversized_payload_removed_witness:
  "max_file_size example_settings < int (length ''%PDF-1.4!'')
   \<and> fst (upload_document ascii_python example_settings example_upload_env ''%PDF-1.4!''
            ''exam.pdf'' ''alice'' True empty_world)
       = Inl (ValueError ''File size exceeds limit: 9 bytes'')
   \<and> documents (snd (upload_document ascii_python example_settings example_upload_env
                       ''%PDF-1.4!'' ''exam.pdf'' ''alice'' True empty_world)) = []
   \<and> files (snd (upload_document ascii_python example_settings example_upload_env
                   ''%PDF-1.4!'' ''exam.pdf'' ''alice'' True empty_world))
        ''data/uploads/u1.pdf'' = None"
proof -
  have h: "max_file_size example_settings < int (length ''%PDF-1.4!'')"
    by (simp add: example_settings_sel)
  have e: "upload_document ascii_python example_settings example_upload_env ''%PDF-1.4!''
            ''exam.pdf'' ''alice'' True empty_world
      = (Inl (ValueError ''File size exceeds limit: 9 bytes''), empty_world)"
    by (simp add: upload_document_def example_allowed save_file_def example_paths example_lower
        generate_unique_filename_def example_settings_sel example_upload_env_sel
        check_file_size_def save_cleanup_def unlink_def empty_world_def str_nat.simps digit_char_def
        Let_def)
  from oversized_payload_removed [OF h, of ascii_python "''u1''" NoFault "''exam.pdf''" Map.empty
      example_upload_env "''alice''" True empty_world]
  have "is_allowed_file ascii_python example_settings ''exam.pdf'' \<longrightarrow>
          files (snd (upload_document ascii_python example_settings example_upload_env
                   ''%PDF-1.4!'' ''exam.pdf'' ''alice'' True empty_world))
            (path_join (upload_dir example_settings)
               (generate_unique_filename (up_unique_id example_upload_env) ''exam.pdf''))
          = None"
    by auto
  then have "files (snd (upload_document ascii_python example_settings example_upload_env
                   ''%PDF-1.4!'' ''exam.pdf'' ''alice'' True empty_world))
        ''data/uploads/u1.pdf'' = None"
    by (simp add: example_allowed example_settings_sel example_upload_env_sel example_paths
          generate_unique_filename_def)
  then show ?thesis using h e by (simp add: empty_world_def)
qed

text \<open>
  C4 on an accepted upload. A PDF of four bytes with an allowed name, uploaded with immediate
  processing switched off: the file is stored and its information read, the constructor of
  \<open>Document\<close> raises, the stored file is deleted again, and the call ends in a
  \<open>RuntimeError\<close>. The state is the one before the call: no document row was inserted.
\<close>

theorem accepted_upload_inserts_no_row:
  "upload_document ascii_python example_settings example_upload_env ''%PDF'' ''exam.pdf'' ''alice''
      False empty_world
     = (Inl (RuntimeError (''Failed to upload document: ''
               @ str_exn (invalid_keyword ''Document'' ''original_filename''))),
        empty_world)"
  by (simp add: upload_document_def example_allowed save_file_def example_paths example_lower
        generate_unique_filename_def example_settings_sel example_upload_env_sel
        check_file_size_def get_file_info_def upload_cleanup_def delete_file_def unlink_def
        empty_world_def Let_def)

lemma accepted_upload_message:
  "''Failed to upload document: '' @ str_exn (invalid_keyword ''Document'' ''original_filename'')
     = ''Failed to upload document: '' @ [CHR 0x27] @ ''original_filename'' @ [CHR 0x27]
         @ '' is an invalid keyword argument for Document''"
  by (simp add: invalid_keyword_def py_repr_def)

section \<open>Processing\<close>

text \<open>
  C2. When the document that the process endpoint resolves is already \<open>completed\<close>, the
  endpoint answers with the status-only response and the state is untouched:
  \<open>process_document\<close>, the only caller of the extractor, is not entered, and
  \<open>processing_completed_at\<close> keeps its value.
\<close>

theorem process_completed_is_status_only:
  assumes "get_document document_id (Some user_id) w = Some d"
      and "processing_status d = ''completed''"
  shows "api_process_document cfg env document_id user_id w =
           (Inr (StatusOnly ''Document already processed'' document_id ''completed''), w)"
  using assms by (simp add: api_process_document_def)

text \<open>
  The guard is the endpoint's. \<open>process_document\<close> itself looks at no status: it never
  returns a result, and once the row is found and the first commit has gone through, the
  document is \<open>processing\<close> or \<open>failed\<close>, whatever its status was.
\<close>

lemma process_document_raises: "isl (fst (process_document cfg env i w))"
  by (simp add: process_document_def process_body_def Let_def split: option.splits)

lemma update_document_cases:
  "d' \<in> set (documents (update_document i f w)) \<Longrightarrow>
     \<exists>d\<in>set (documents w). d' = (if doc_id d = i then f d else d)"
  by (auto simp: update_document_def)

lemma update_document_at:
  assumes "d' \<in> set (documents (update_document i f w))" and "doc_id d' = i"
      and "\<And>d. doc_id (f d) = doc_id d"
  shows "\<exists>d\<in>set (documents w). doc_id d = i \<and> d' = f d"
proof -
  from update_document_cases [OF assms(1)] obtain d where
    d: "d \<in> set (documents w)" "d' = (if doc_id d = i then f d else d)"
    by blast
  show ?thesis
  proof (cases "doc_id d = i")
    case True
    with d show ?thesis by auto
  next
    case False
    with d have "d' = d" by simp
    with False assms(2) show ?thesis by simp
  qed
qed




lemma mark_failed_cases:
  "mark_failed env i e w = w
   \<or> mark_failed env i e w
       = update_document i
           (\<lambda>d. d\<lparr>processing_status := ''failed'',
                  processing_completed_at := Some (proc_completed env),
                  error_message := Some (str_exn e)\<rparr>) w"
  by (simp add: mark_failed_def split: option.splits)

lemma started_cases:
  assumes "find (\<lambda>d. doc_id d = i) (documents w) = Some d" and "commit_started_ok env"
  shows "snd (process_document cfg env i w)
          = mark_failed env i (no_attribute ''Document'' ''file_path'')
              (update_document i
                 (\<lambda>d. d\<lparr>processing_status := ''processing'',
                        processing_started_at := Some (proc_started env)\<rparr>) w)"
  using assms by (simp add: process_document_def process_body_def)


lemma process_document_has_no_status_guard:
  assumes "find (\<lambda>d. doc_id d = i) (documents w) = Some d" and "commit_started_ok env"
      and "d' \<in> set (documents (snd (process_document cfg env i w)))" and "doc_id d' = i"
  shows "processing_status d' = ''processing'' \<or> processing_status d' = ''failed''"
proof -
  let ?f = "\<lambda>d. d\<lparr>processing_status := ''processing'',
                     processing_started_at := Some (proc_started env)\<rparr>"
  let ?g = "\<lambda>d. d\<lparr>processing_status := ''failed'',
                     processing_completed_at := Some (proc_completed env),
                     error_message := Some (str_exn (no_attribute ''Document'' ''file_path''))\<rparr>"
  let ?w1 = "update_document i ?f w"
  note s = started_cases [OF assms(1,2), of cfg]
  from mark_failed_cases [of env i "no_attribute ''Document'' ''file_path''" ?w1]
  show ?thesis
  proof
    assume "mark_failed env i (no_attribute ''Document'' ''file_path'') ?w1 = ?w1"
    with s assms(3) have "d' \<in> set (documents ?w1)" by simp
    from update_document_at [OF this assms(4)] show ?thesis by auto
  next
    assume "mark_failed env i (no_attribute ''Document'' ''file_path'') ?w1
              = update_document i ?g ?w1"
    with s assms(3) have "d' \<in> set (documents (update_document i ?g ?w1))" by simp
    from update_document_at [OF this assms(4)] show ?thesis by auto
  qed
qed











lemma enhance_analysis_keeps:
  "map qa_id (analyses (enhance_analysis ok qa w)) = map qa_id (analyses w)"
  "map qa_user_id (analyses (enhance_analysis ok qa w)) = map qa_user_id (analyses w)"
  "map confidence_score (analyses (enhance_analysis ok qa w)) = map confidence_score (analyses w)"
  "map ai_model_used (analyses (enhance_analysis ok qa w)) = map ai_model_used (analyses w)"
  "map practice_materials (analyses (enhance_analysis ok qa w)) = map practice_materials (analyses w)"
  "rollbacks (enhance_analysis ok qa w) = rollbacks w"
  "documents (enhance_analysis ok qa w) = documents w"
  "files (enhance_analysis ok qa w) = files w"
  by (simp_all add: enhance_analysis_def find_relevant_articles_def Let_def)







section \<open>Text extraction\<close>

lemma extract_pages_files:
  "snd (extract_pages py cfg env i ps fs) = (\<lambda>p. if p \<in> set ps then None else fs p)"
proof (induction ps arbitrary: i fs)
  case Nil
  show ?case by simp
next
  case (Cons a ps)
  obtain r fs2 where e: "extract_pages py cfg env (i + 1) ps (unlink a fs) = (r, fs2)"
    by (cases "extract_pages py cfg env (i + 1) ps (unlink a fs)")
  then have "fs2 = (\<lambda>p. if p \<in> set ps then None else unlink a fs p)"
    using Cons.IH [of "i + 1" "unlink a fs"] by simp
  then show ?case using e
    by (cases r) (auto simp: Let_def unlink_def)
qed

lemma render_pages_result:
  "render_pages env pdf ps acc fs = (Some l, fs') \<Longrightarrow>
     l = acc @ map (page_image_path pdf) ps
     \<and> (\<forall>p. p \<notin> set (map (page_image_path pdf) ps) \<longrightarrow> fs' p = fs p)"
proof (induction ps arbitrary: acc fs)
  case Nil
  then show ?case by simp
next
  case (Cons a ps)
  from Cons.prems have nf: "raster_fails_at env \<noteq> Some a"
    by (auto split: if_splits)
  with Cons.prems have
    "render_pages env pdf ps (acc @ [page_image_path pdf a])
       (fs(page_image_path pdf a \<mapsto> page_image env a)) = (Some l, fs')"
    by (simp add: Let_def)
  from Cons.IH [OF this] show ?case by auto
qed

text \<open>
  When every page renders, the page loop removes each image it was given: after the call
  the store is the one before it, without the image paths.
\<close>

lemma pdf_extraction_cleans_up_after_rendering:
  assumes "fs pdf \<noteq> None"
      and "convert_pdf_to_images env pdf fs = (image_paths, fs1)" and "image_paths \<noteq> []"
  shows "snd (extract_text_from_pdf py cfg env pdf fs)
           = (\<lambda>p. if p \<in> set image_paths then None else fs p)"
proof -
  obtain l fs' where r: "render_pages env pdf [0 ..< pdf_page_count env] [] fs = (l, fs')"
    by (cases "render_pages env pdf [0 ..< pdf_page_count env] [] fs")
  with assms(2,3) obtain ps where l: "l = Some ps" and eq: "ps = image_paths" "fs' = fs1"
    by (cases l) (auto simp: convert_pdf_to_images_def)
  from render_pages_result [of env pdf "[0 ..< pdf_page_count env]" "[]" fs ps fs'] r l
  have paths: "ps = map (page_image_path pdf) [0 ..< pdf_page_count env]"
    and same: "\<forall>p. p \<notin> set ps \<longrightarrow> fs' p = fs p"
    by auto
  obtain x fs2 where e: "extract_pages py cfg env 0 image_paths fs1 = (x, fs2)"
    by (cases "extract_pages py cfg env 0 image_paths fs1")
  then have fs2: "fs2 = (\<lambda>p. if p \<in> set image_paths then None else fs1 p)"
    using extract_pages_files [of py cfg env 0 image_paths fs1] by simp
  have "snd (extract_text_from_pdf py cfg env pdf fs) = fs2"
    using assms e by (cases x) (auto simp: extract_text_from_pdf_def Let_def)
  then show ?thesis using fs2 same eq by auto
qed

lemma failing_ocr_sel:
  "ocr_available failing_ocr" "pdf_page_count failing_ocr = 2" "raster_fails_at failing_ocr = Some 1"
  "page_image failing_ocr n = ''PNG''" "paddle_lines failing_ocr p = Some [''text'']"
  by (simp_all add: failing_ocr_def working_ocr_def)

lemma working_ocr_sel:
  "ocr_available working_ocr" "pdf_page_count working_ocr = 2" "raster_fails_at working_ocr = None"
  "page_image working_ocr n = ''PNG''" "paddle_lines working_ocr p = Some [''text'']"
  by (simp_all add: working_ocr_def)

lemma page_image_paths:
  "page_image_path ''data/uploads/u1.pdf'' 0 = ''data/uploads/u1_page_1.png''"
  "page_image_path ''data/uploads/u1.pdf'' (Suc 0) = ''data/uploads/u1_page_2.png''"
  by (simp_all add: page_image_path_def path_stem_def path_parent_def path_name_def last_dot_def
        path_join_def path_of_def path_str_def path_root_def path_parts_def
        str_nat.simps digit_char_def)

lemma convert_failing:
  "convert_pdf_to_images failing_ocr ''data/uploads/u1.pdf'' fs
     = ([], fs(''data/uploads/u1_page_1.png'' \<mapsto> ''PNG''))"
  by (simp add: convert_pdf_to_images_def failing_ocr_sel upt_conv_Cons page_image_paths Let_def)

lemma convert_working:
  "convert_pdf_to_images working_ocr ''data/uploads/u1.pdf'' fs
     = ([''data/uploads/u1_page_1.png'', ''data/uploads/u1_page_2.png''],
        fs(''data/uploads/u1_page_1.png'' \<mapsto> ''PNG'', ''data/uploads/u1_page_2.png'' \<mapsto> ''PNG''))"
  by (simp add: convert_pdf_to_images_def working_ocr_sel upt_conv_Cons page_image_paths Let_def)

text \<open>
  C9 on a failing run. A two-page PDF whose second page fails to render: the conversion
  returns the empty list, the extraction reports no success, and the image written for
  the first page is still in the store when the call returns.
\<close>

theorem pdf_extraction_leaves_page_image:
  "extract_text_from_pdf py example_settings failing_ocr ''data/uploads/u1.pdf''
       [''data/uploads/u1.pdf'' \<mapsto> ''%PDF'']
     = (Inr \<lparr>ocr_text = [], ocr_pages = [],
              ocr_meta = \<lparr>total_pages = 0, meta_engine = ''paddleocr'', meta_language = ''ch_tra'',
                           success = False, meta_error = None\<rparr>\<rparr>,
        [''data/uploads/u1.pdf'' \<mapsto> ''%PDF'', ''data/uploads/u1_page_1.png'' \<mapsto> ''PNG''])"
  by (simp add: extract_text_from_pdf_def convert_failing example_settings_sel)

text \<open>The same PDF rendering well: both page images are gone when the call returns.\<close>

lemma pdf_extraction_success_run:
  "snd (extract_text_from_pdf py example_settings working_ocr ''data/uploads/u1.pdf''
          [''data/uploads/u1.pdf'' \<mapsto> ''%PDF''])
     = [''data/uploads/u1.pdf'' \<mapsto> ''%PDF'']"
proof -
  have "snd (extract_text_from_pdf py example_settings working_ocr ''data/uploads/u1.pdf''
          [''data/uploads/u1.pdf'' \<mapsto> ''%PDF''])
     = (\<lambda>p. if p \<in> set [''data/uploads/u1_page_1.png'', ''data/uploads/u1_page_2.png''] then None
             else [''data/uploads/u1.pdf'' \<mapsto> ''%PDF''] p)"
    by (rule pdf_extraction_cleans_up_after_rendering [OF _ convert_working]) simp_all
  then show ?thesis by (auto simp: fun_eq_iff)
qed

section \<open>Processing on the example inputs\<close>

lemma example_process_env_sel:
  "proc_started example_process_env = 2"
  "proc_completed example_process_env = 3"
  "commit_started_ok example_process_env"
  "commit_failed_ok example_process_env"
  by (simp_all add: example_process_env_def)


lemma world_with_sel:
  "documents (world_with d) = [d]"
  "files (world_with d) = [''data/uploads/u1.pdf'' \<mapsto> ''%PDF'']"
  "analyses (world_with d) = []"
  "rollbacks (world_with d) = 0"
  by (simp_all add: world_with_def)

lemma example_documents_sel:
  "doc_id stored_document = ''d1''" "doc_user_id stored_document = ''alice''"
  "processing_status stored_document = ''uploaded''"
  "doc_ocr_text stored_document = None" "error_message stored_document = None"
  "doc_id failed_document = ''d1''" "doc_user_id failed_document = ''alice''"
  "processing_status failed_document = ''failed''"
  "doc_ocr_text failed_document = None"
  "error_message failed_document = Some (str_exn (no_attribute ''Document'' ''file_path''))"
  "doc_id completed_document = ''d1''" "doc_user_id completed_document = ''alice''"
  "processing_status completed_document = ''completed''"
  "doc_ocr_text completed_document = Some ''text''" "error_message completed_document = None"
  "processing_completed_at completed_document = Some 3"
  by (simp_all add: stored_document_def failed_document_def completed_document_def)

theorem process_completed_is_status_only_witness:
  "map_option processing_status (get_document ''d1'' (Some ''alice'') completed_world)
     = Some ''completed''
   \<and> api_process_document example_settings example_process_env ''d1'' ''alice'' completed_world
      = (Inr (StatusOnly ''Document already processed'' ''d1'' ''completed''), completed_world)"
proof -
  have g: "get_document ''d1'' (Some ''alice'') completed_world = Some completed_document"
    by (simp add: get_document_def truthy_def completed_world_def world_with_sel
          example_documents_sel)
  have f: "processing_status completed_document = ''completed''"
    by (simp add: example_documents_sel)
  show ?thesis
    using g f process_completed_is_status_only [OF g f, of example_settings example_process_env]
    by simp
qed






text \<open>
  The state that the \<open>try\<close> block of a second processing commits, whatever the
  database does afterwards: the document is \<open>processing\<close> and still carries the error
  message of the first failure.
\<close>

lemma reprocessing_commits_stale_message:
  "map processing_status
       (documents (snd (process_body example_settings example_process_env ''d1'' failed_world)))
     = [''processing'']"
  "map error_message
       (documents (snd (process_body example_settings example_process_env ''d1'' failed_world)))
     = [Some (str_exn (no_attribute ''Document'' ''file_path''))]"
  by (simp_all add: process_body_def update_document_def failed_world_def world_with_def
        failed_document_def example_process_env_sel)



section \<open>Ownership\<close>

text \<open>
  C10. \<open>get_analysis\<close>, \<open>get_user_analyses\<close> and \<open>get_user_documents\<close> return
  only rows of the table owned by the user asked for, and so does \<open>get_document\<close> when
  it is given a user identifier. A user identifier is the rendering of a UUID, which is
  never the empty string.
\<close>

theorem reads_are_owner_scoped:
  "(\<forall>a. get_analysis analysis_id u w = Some a \<longrightarrow> a \<in> set (analyses w) \<and> qa_user_id a = u)
   \<and> (\<forall>a\<in>set (get_user_analyses u limit offset type_filter w).
         a \<in> set (analyses w) \<and> qa_user_id a = u)
   \<and> (\<forall>d\<in>set (get_user_documents u limit offset status_filter w).
         d \<in> set (documents w) \<and> doc_user_id d = u)
   \<and> (u \<noteq> [] \<longrightarrow>
        (\<forall>d. get_document document_id (Some u) w = Some d \<longrightarrow>
           d \<in> set (documents w) \<and> doc_user_id d = u))"
proof (intro conjI allI impI ballI)
  fix a assume "get_analysis analysis_id u w = Some a"
  then show "a \<in> set (analyses w)" "qa_user_id a = u"
    by (auto simp: get_analysis_def dest: find_Some_set)
next
  fix a assume "a \<in> set (get_user_analyses u limit offset type_filter w)"
  then have "a \<in> set (filter (\<lambda>a. qa_user_id a = u) (analyses w))"
    by (auto simp: get_user_analyses_def Let_def split: if_splits dest!: in_set_takeD in_set_dropD)
  then show "a \<in> set (analyses w)" "qa_user_id a = u" by auto
next
  fix d assume "d \<in> set (get_user_documents u limit offset status_filter w)"
  then have "d \<in> set (filter (\<lambda>d. doc_user_id d = u) (documents w))"
    by (auto simp: get_user_documents_def Let_def split: if_splits dest!: in_set_takeD in_set_dropD)
  then show "d \<in> set (documents w)" "doc_user_id d = u" by auto
next
  fix d assume "u \<noteq> []" "get_document document_id (Some u) w = Some d"
  then show "d \<in> set (documents w)" "doc_user_id d = u"
    by (auto simp: get_document_def truthy_def dest: find_Some_set)
qed

section \<open>Analysis\<close>

text \<open>
  C7, as the code has it. While the reasoning client is unavailable, and provided the
  database takes the insert of the fallback row (at the first attempt or at the one after
  the rollback),
  \<open>analyze_question\<close> returns the result of the fallback classifier with confidence 0.3
  and appends one row with that confidence and the model identifier
  \<open>fallback_classifier\<close>.
\<close>

theorem unavailable_llm_uses_fallback:
  assumes "\<not> llm_available (an_llm env)"
      and "insert_ok (an_fallback_first env) \<or> insert_ok (an_fallback_retry env)"
  shows "\<exists>res w' row.
           analyze_question py cfg env qtext user_id document_id context hint w = (Inr res, w')
           \<and> analyses w' = analyses w @ [row]
           \<and> out_confidence_score res = 3 / 10
           \<and> out_processing_metadata res = MethodFallback
           \<and> out_question_type res = classify_question_basic py qtext
           \<and> out_difficulty_level res = estimate_difficulty_basic qtext
           \<and> qa_id row = out_analysis_id res
           \<and> qa_user_id row = user_id
           \<and> question_text row = qtext
           \<and> question_type row = Some (classify_question_basic py qtext)
           \<and> confidence_score row = Some (3 / 10)
           \<and> ai_model_used row = Some ''fallback_classifier''"
  using assms
  by (cases "insert_ok (an_fallback_first env)")
     (simp_all add: analyze_question_def analyze_try_def fallback_analysis_def fallback_row_def)

text \<open>
  C1, as the code has it. When the call to the language model raises, the reasoning client
  absorbs the failure: provided the database takes the insert, \<open>analyze_question\<close>
  stores and returns the client's placeholder result (confidence 0, the configured model as
  identifier, metadata with the success flag off and the error text), without a rollback
  and without the fallback classifier, and nothing is raised. The rollback followed by the
  fallback classifier is what happens when the insert of the primary row fails and the one
  of the fallback row goes through.
\<close>

theorem llm_failure_is_absorbed_by_the_client:
  "(llm_available (an_llm env)
      \<and> llm_respond (an_llm env) qtext context hint = LlmRaises m
      \<and> insert_ok (an_primary env) \<longrightarrow>
      (\<exists>res w'. analyze_question py cfg env qtext user_id document_id context hint w = (Inr res, w')
         \<and> out_confidence_score res = 0
         \<and> out_processing_metadata res
             = LlmMetadata \<lparr>model_used = openai_model cfg,
                            llm_processing_time_ms = elapsed_ms (an_llm env),
                            prompt_tokens = None, response_tokens = None,
                            llm_success = False, llm_error = Some m\<rparr>
         \<and> rollbacks w' = rollbacks w
         \<and> map qa_id (analyses w') = map qa_id (analyses w) @ [out_analysis_id res]
         \<and> map confidence_score (analyses w') = map confidence_score (analyses w) @ [Some 0]
         \<and> map ai_model_used (analyses w')
             = map ai_model_used (analyses w) @ [Some (openai_model cfg)]))
   \<and> (llm_available (an_llm env) \<and> \<not> insert_ok (an_primary env)
        \<and> insert_ok (an_fallback_retry env) \<longrightarrow>
      (\<exists>res w' row. analyze_question py cfg env qtext user_id document_id context hint w = (Inr res, w')
         \<and> rollbacks w' = rollbacks w + 1
         \<and> analyses w' = analyses w @ [row]
         \<and> out_confidence_score res = 3 / 10
         \<and> out_processing_metadata res = MethodFallback
         \<and> ai_model_used row = Some ''fallback_classifier''))"
proof (intro conjI impI)
  assume a: "llm_available (an_llm env)
      \<and> llm_respond (an_llm env) qtext context hint = LlmRaises m
      \<and> insert_ok (an_primary env)"
  then show "\<exists>res w'. analyze_question py cfg env qtext user_id document_id context hint w = (Inr res, w')
         \<and> out_confidence_score res = 0
         \<and> out_processing_metadata res
             = LlmMetadata \<lparr>model_used = openai_model cfg,
                            llm_processing_time_ms = elapsed_ms (an_llm env),
                            prompt_tokens = None, response_tokens = None,
                            llm_success = False, llm_error = Some m\<rparr>
         \<and> rollbacks w' = rollbacks w
         \<and> map qa_id (analyses w') = map qa_id (analyses w) @ [out_analysis_id res]
         \<and> map confidence_score (analyses w') = map confidence_score (analyses w) @ [Some 0]
         \<and> map ai_model_used (analyses w')
             = map ai_model_used (analyses w) @ [Some (openai_model cfg)]"
    by (simp add: analyze_question_def analyze_try_def analyze_legal_question_def
          get_fallback_result_def enhance_analysis_keeps Let_def)
next
  assume a: "llm_available (an_llm env) \<and> \<not> insert_ok (an_primary env)
        \<and> insert_ok (an_fallback_retry env)"
  have "\<exists>r md. analyze_legal_question cfg (an_llm env) qtext context hint = Inr (r, md)"
    using a by (auto simp: analyze_legal_question_def Let_def split: llm_call.splits)
  then obtain r md where
    "analyze_legal_question cfg (an_llm env) qtext context hint = Inr (r, md)"
    by blast
  then show "\<exists>res w' row. analyze_question py cfg env qtext user_id document_id context hint w = (Inr res, w')
         \<and> rollbacks w' = rollbacks w + 1
         \<and> analyses w' = analyses w @ [row]
         \<and> out_confidence_score res = 3 / 10
         \<and> out_processing_metadata res = MethodFallback
         \<and> ai_model_used row = Some ''fallback_classifier''"
    using a
    by (simp add: analyze_question_def analyze_try_def fallback_analysis_def fallback_row_def Let_def)
qed

text \<open>
  C8. A rating outside \<open>[1, 5]\<close> is refused by the endpoint before the service runs, with
  the state unchanged. When no analysis with the given identifier belongs to the caller
  (it is someone else's, or there is none), \<open>rate_analysis\<close> returns \<open>False\<close>, the
  endpoint answers with an error, and the state is unchanged. A rating that is accepted lies
  in \<open>[1, 5]\<close> and is for an analysis of the caller.
\<close>

theorem rate_guards:
  "(\<not> (1 \<le> rating \<and> rating \<le> 5) \<longrightarrow>
      api_rate_analysis env analysis_id rating feedback u w
        = (Inl (HTTPException 422 ''Unprocessable Entity''), w))
   \<and> ((\<forall>a\<in>set (analyses w). qa_id a = analysis_id \<longrightarrow> qa_user_id a \<noteq> u) \<longrightarrow>
        rate_analysis env analysis_id u rating feedback w = (False, w)
        \<and> (\<exists>c m. api_rate_analysis env analysis_id rating feedback u w
                    = (Inl (HTTPException c m), w) \<and> (c = 404 \<or> c = 422)))
   \<and> (\<forall>resp w'. api_rate_analysis env analysis_id rating feedback u w = (Inr resp, w') \<longrightarrow>
         1 \<le> rating \<and> rating \<le> 5
         \<and> (\<exists>a\<in>set (analyses w). qa_id a = analysis_id \<and> qa_user_id a = u))"
proof (intro conjI allI impI)
  assume "\<not> (1 \<le> rating \<and> rating \<le> 5)"
  then show "api_rate_analysis env analysis_id rating feedback u w
        = (Inl (HTTPException 422 ''Unprocessable Entity''), w)"
    by (auto simp: api_rate_analysis_def valid_rating_request_def)
next
  assume other: "\<forall>a\<in>set (analyses w). qa_id a = analysis_id \<longrightarrow> qa_user_id a \<noteq> u"
  then have none: "get_analysis analysis_id u w = None"
    by (auto simp: get_analysis_def find_None_set)
  then show "rate_analysis env analysis_id u rating feedback w = (False, w)"
    by (simp add: rate_analysis_def)
  then show "\<exists>c m. api_rate_analysis env analysis_id rating feedback u w
                    = (Inl (HTTPException c m), w) \<and> (c = 404 \<or> c = 422)"
    by (simp add: api_rate_analysis_def)
next
  fix resp w'
  assume ok: "api_rate_analysis env analysis_id rating feedback u w = (Inr resp, w')"
  then show "1 \<le> rating" "rating \<le> 5"
    by (auto simp: api_rate_analysis_def valid_rating_request_def split: if_splits)
  from ok obtain a where "get_analysis analysis_id u w = Some a"
    by (auto simp: api_rate_analysis_def rate_analysis_def
             split: if_splits option.splits bool.splits prod.splits)
  then show "\<exists>a\<in>set (analyses w). qa_id a = analysis_id \<and> qa_user_id a = u"
    by (auto simp: get_analysis_def dest: find_Some_set)
qed

section \<open>Analysis on the example inputs\<close>

lemma example_insert_sel:
  "new_id (example_insert i) = i" "new_now (example_insert i) = 5" "insert_ok (example_insert i)"
  by (simp_all add: example_insert_def)

lemma example_analyze_env_sel:
  "an_llm (example_analyze_env llm) = llm"
  "an_primary (example_analyze_env llm) = example_insert ''a1''"
  "an_enhance_commit_ok (example_analyze_env llm)"
  "an_fallback_first (example_analyze_env llm) = example_insert ''a2''"
  "an_fallback_retry (example_analyze_env llm) = example_insert ''a3''"
  by (simp_all add: example_analyze_env_def)

lemma llm_sel:
  "\<not> llm_available unavailable_llm"
  "llm_available failing_llm"
  "llm_respond failing_llm q c h = LlmRaises ''Request timed out''"
  "elapsed_ms failing_llm = 60000"
  by (simp_all add: unavailable_llm_def failing_llm_def)

lemma example_question_type:
  "classify_question_basic ascii_python example_question = type_choice"
  by (simp add: classify_question_basic_def example_question_def choice_markers_def
        ascii_python_def lower_char_def)

lemma fallback_run_eq:
  "fallback_run =
     fallback_analysis ascii_python (example_insert ''a2'') example_question ''alice'' None empty_world"
  by (simp add: fallback_run_def analyze_question_def analyze_try_def example_analyze_env_sel
        llm_sel fallback_analysis_def example_insert_sel Let_def)

lemma analysed_world_analyses:
  "analyses analysed_world = [fallback_row ascii_python (example_insert ''a2'') example_question ''alice'' None]"
  by (simp add: analysed_world_def fallback_run_eq fallback_analysis_def example_insert_sel
        empty_world_def Let_def)

theorem unavailable_llm_uses_fallback_witness:
  "\<not> llm_available (an_llm (example_analyze_env unavailable_llm))
   \<and> insert_ok (an_fallback_first (example_analyze_env unavailable_llm))
   \<and> \<not> isl (fst fallback_run)
   \<and> out_confidence_score (projr (fst fallback_run)) = 3 / 10
   \<and> out_question_type (projr (fst fallback_run)) = type_choice
   \<and> map confidence_score (analyses (snd fallback_run)) = [Some (3 / 10)]
   \<and> map ai_model_used (analyses (snd fallback_run)) = [Some ''fallback_classifier'']"
proof -
  have h1: "\<not> llm_available (an_llm (example_analyze_env unavailable_llm))"
    by (simp add: example_analyze_env_sel llm_sel)
  have h2: "insert_ok (an_fallback_first (example_analyze_env unavailable_llm))
            \<or> insert_ok (an_fallback_retry (example_analyze_env unavailable_llm))"
    by (simp add: example_analyze_env_sel example_insert_sel)
  from unavailable_llm_uses_fallback [OF h1 h2, of ascii_python example_settings example_question "''alice''"
      None None None empty_world]
  obtain res w' row where
    run: "fallback_run = (Inr res, w')" and rows: "analyses w' = analyses empty_world @ [row]"
    and res: "out_confidence_score res = 3 / 10"
      "out_question_type res = classify_question_basic ascii_python example_question"
    and row: "confidence_score row = Some (3 / 10)" "ai_model_used row = Some ''fallback_classifier''"
    unfolding fallback_run_def by blast
  have "fst fallback_run = Inr res" "snd fallback_run = w'"
    by (metis run fst_conv, metis run snd_conv)
  then show ?thesis
    using h1 rows res row
    by (simp add: example_question_type empty_world_def example_analyze_env_sel example_insert_sel)
qed



text \<open>
  A request that names a document no row stands for, while the reasoning client is
  unavailable: the database refuses the fallback row at both attempts, so the call raises
  the database error, after one rollback, and no row is stored.
\<close>

lemma refused_insert_sel:
  "\<not> insert_ok (refused_insert i)"
  "insert_error (refused_insert i) = ''violates foreign key constraint on document_id''"
  by (simp_all add: refused_insert_def)

lemma dangling_document_env_sel:
  "an_llm dangling_document_env = unavailable_llm"
  "an_fallback_first dangling_document_env = refused_insert ''a2''"
  "an_fallback_retry dangling_document_env = refused_insert ''a3''"
  by (simp_all add: dangling_document_env_def)

theorem dangling_document_analysis_raises_counterexample:
  "\<not> llm_available (an_llm dangling_document_env)
   \<and> ''d404'' \<notin> set (map doc_id (documents empty_world))
   \<and> analyze_question ascii_python example_settings dangling_document_env example_question ''alice''
        (Some ''d404'') None None empty_world
      = (Inl (SQLAlchemyError ''violates foreign key constraint on document_id''),
         empty_world\<lparr>rollbacks := 1\<rparr>)
   \<and> analyses (empty_world\<lparr>rollbacks := 1\<rparr>) = []"
  by (simp add: analyze_question_def analyze_try_def fallback_analysis_def
        dangling_document_env_sel refused_insert_sel llm_sel empty_world_def Let_def)

lemma llm_failure_run_eval:
  "\<not> isl (fst llm_failure_run)"
  "out_confidence_score (projr (fst llm_failure_run)) = 0"
  "out_processing_metadata (projr (fst llm_failure_run)) \<noteq> MethodFallback"
  "rollbacks (snd llm_failure_run) = 0"
  "map ai_model_used (analyses (snd llm_failure_run)) = [Some ''gpt-4'']"
proof -
  show "\<not> isl (fst llm_failure_run)"
    by (simp add: llm_failure_run_def analyze_question_def analyze_try_def
        analyze_legal_question_def example_analyze_env_sel llm_sel example_insert_sel Let_def)
  show "out_confidence_score (projr (fst llm_failure_run)) = 0"
    by (simp add: llm_failure_run_def analyze_question_def analyze_try_def
        analyze_legal_question_def example_analyze_env_sel llm_sel example_insert_sel Let_def
        get_fallback_result_def)
  show "out_processing_metadata (projr (fst llm_failure_run)) \<noteq> MethodFallback"
    by (simp add: llm_failure_run_def analyze_question_def analyze_try_def
        analyze_legal_question_def example_analyze_env_sel llm_sel example_insert_sel Let_def)
  show "rollbacks (snd llm_failure_run) = 0"
    by (simp add: llm_failure_run_def analyze_question_def analyze_try_def
        analyze_legal_question_def example_analyze_env_sel llm_sel example_insert_sel
        enhance_analysis_keeps empty_world_def Let_def)
  show "map ai_model_used (analyses (snd llm_failure_run)) = [Some ''gpt-4'']"
    by (simp add: llm_failure_run_def analyze_question_def analyze_try_def
        analyze_legal_question_def example_analyze_env_sel llm_sel example_insert_sel
        example_settings_sel enhance_analysis_keeps empty_world_def Let_def)
qed

text \<open>
  A call to the language model that times out: there is no rollback, the result is not the
  fallback classifier's, and the stored row names the configured model.
\<close>

theorem llm_failure_is_stored_without_rollback_counterexample:
  "llm_respond failing_llm example_question None None = LlmRaises ''Request timed out''
   \<and> \<not> isl (fst llm_failure_run)
   \<and> out_confidence_score (projr (fst llm_failure_run)) = 0
   \<and> out_processing_metadata (projr (fst llm_failure_run)) \<noteq> MethodFallback
   \<and> rollbacks (snd llm_failure_run) = rollbacks empty_world
   \<and> map ai_model_used (analyses (snd llm_failure_run)) = [Some ''gpt-4'']"
proof -
  have "rollbacks (snd llm_failure_run) = rollbacks empty_world"
    by (simp add: llm_failure_run_eval(4) empty_world_def)
  then show ?thesis
    using llm_failure_run_eval(1,2,3,5) llm_sel(3) by blast
qed

theorem llm_failure_is_absorbed_by_the_client_witness:
  "llm_available (an_llm (example_analyze_env failing_llm))
   \<and> llm_respond (an_llm (example_analyze_env failing_llm)) example_question None None
        = LlmRaises ''Request timed out''
   \<and> insert_ok (an_primary (example_analyze_env failing_llm))
   \<and> \<not> isl (fst llm_failure_run)
   \<and> map confidence_score (analyses (snd llm_failure_run)) = [Some 0]
   \<and> rollbacks (snd llm_failure_run) = 0
   \<and> llm_available (an_llm failing_primary_insert)
   \<and> \<not> insert_ok (an_primary failing_primary_insert)
   \<and> insert_ok (an_fallback_retry failing_primary_insert)
   \<and> rollbacks (snd (analyze_question ascii_python example_settings failing_primary_insert example_question
                        ''alice'' None None None empty_world)) = 1
   \<and> map ai_model_used
         (analyses (snd (analyze_question ascii_python example_settings failing_primary_insert example_question
                           ''alice'' None None None empty_world)))
        = [Some ''fallback_classifier'']"
proof -
  have h1: "llm_available (an_llm (example_analyze_env failing_llm))
      \<and> llm_respond (an_llm (example_analyze_env failing_llm)) example_question None None
           = LlmRaises ''Request timed out''
      \<and> insert_ok (an_primary (example_analyze_env failing_llm))"
    by (simp add: example_analyze_env_sel llm_sel example_insert_sel)
  have h2: "llm_available (an_llm failing_primary_insert)
      \<and> \<not> insert_ok (an_primary failing_primary_insert)
      \<and> insert_ok (an_fallback_retry failing_primary_insert)"
    by (simp add: failing_primary_insert_def example_analyze_env_sel llm_sel example_insert_sel)
  from h1 llm_failure_is_absorbed_by_the_client [of "example_analyze_env failing_llm"
      example_question None None "''Request timed out''" ascii_python example_settings "''alice''"
      None empty_world]
  obtain res w' where
    run: "llm_failure_run = (Inr res, w')" and rb: "rollbacks w' = rollbacks empty_world"
    and cs: "map confidence_score (analyses w') = map confidence_score (analyses empty_world) @ [Some 0]"
    unfolding llm_failure_run_def by blast
  have p1: "fst llm_failure_run = Inr res" "snd llm_failure_run = w'"
    by (metis run fst_conv, metis run snd_conv)
  let ?run2 = "analyze_question ascii_python example_settings failing_primary_insert example_question
                 ''alice'' None None None empty_world"
  from h2 llm_failure_is_absorbed_by_the_client [of failing_primary_insert
      example_question None None "''Request timed out''" ascii_python example_settings "''alice''"
      None empty_world]
  obtain res2 w2 row where
    run2: "?run2 = (Inr res2, w2)" and rb2: "rollbacks w2 = rollbacks empty_world + 1"
    and rows2: "analyses w2 = analyses empty_world @ [row]"
    and m2: "ai_model_used row = Some ''fallback_classifier''"
    by blast
  have p2: "snd ?run2 = w2" by (metis run2 snd_conv)
  show ?thesis
    using h1 h2 p1 p2 rb cs rb2 rows2 m2 by (simp add: empty_world_def)
qed

lemma fallback_row_sel:
  "qa_id (fallback_row py env q u d) = new_id env"
  "qa_user_id (fallback_row py env q u d) = u"
  "user_rating (fallback_row py env q u d) = None"
  by (simp_all add: fallback_row_def)

theorem rate_guards_witness:
  "\<not> (1 \<le> (6::real) \<and> (6::real) \<le> 5)
   \<and> api_rate_analysis example_rate_env ''a2'' 6 None ''alice'' analysed_world
        = (Inl (HTTPException 422 ''Unprocessable Entity''), analysed_world)
   \<and> map qa_id (analyses analysed_world) = [''a2'']
   \<and> map qa_user_id (analyses analysed_world) = [''alice'']
   \<and> rate_analysis example_rate_env ''a2'' ''bob'' 4 None analysed_world = (False, analysed_world)
   \<and> rate_analysis example_rate_env ''a9'' ''alice'' 4 None analysed_world = (False, analysed_world)
   \<and> \<not> isl (fst (api_rate_analysis example_rate_env ''a2'' 4 None ''alice'' analysed_world))
   \<and> map user_rating
         (analyses (snd (api_rate_analysis example_rate_env ''a2'' 4 None ''alice'' analysed_world)))
        = [Some 4]"
proof -
  note g = rate_guards [of 6 example_rate_env "''a2''" None "''alice''" analysed_world]
  have bob: "\<forall>a\<in>set (analyses analysed_world). qa_id a = ''a2'' \<longrightarrow> qa_user_id a \<noteq> ''bob''"
    by (simp add: analysed_world_analyses fallback_row_sel)
  have none: "\<forall>a\<in>set (analyses analysed_world). qa_id a = ''a9'' \<longrightarrow> qa_user_id a \<noteq> ''alice''"
    by (simp add: analysed_world_analyses fallback_row_sel example_insert_sel)
  have r1: "rate_analysis example_rate_env ''a2'' ''bob'' 4 None analysed_world = (False, analysed_world)"
    using bob rate_guards [of 4 example_rate_env "''a2''" None "''bob''" analysed_world] by blast
  have r2: "rate_analysis example_rate_env ''a9'' ''alice'' 4 None analysed_world = (False, analysed_world)"
    using none rate_guards [of 4 example_rate_env "''a9''" None "''alice''" analysed_world] by blast
  have ok: "get_analysis ''a2'' ''alice'' analysed_world
              = Some (fallback_row ascii_python (example_insert ''a2'') example_question ''alice'' None)"
    by (simp add: get_analysis_def analysed_world_analyses fallback_row_sel example_insert_sel)
  have r3: "\<not> isl (fst (api_rate_analysis example_rate_env ''a2'' 4 None ''alice'' analysed_world))"
    "map user_rating
         (analyses (snd (api_rate_analysis example_rate_env ''a2'' 4 None ''alice'' analysed_world)))
        = [Some 4]"
    by (simp_all add: api_rate_analysis_def valid_rating_request_def rate_analysis_def ok
          example_rate_env_def analysed_world_analyses fallback_row_sel example_insert_sel)
  show ?thesis
    using g r1 r2 r3 by (simp add: analysed_world_analyses fallback_row_sel example_insert_sel)
qed


theorem reads_are_owner_scoped_witness:
  "''alice'' \<noteq> []
   \<and> map_option doc_user_id (get_document ''d1'' (Some ''alice'') stored_world) = Some ''alice''
   \<and> get_document ''d1'' (Some ''bob'') stored_world = None
   \<and> map doc_user_id (get_user_documents ''alice'' 20 0 None stored_world) = [''alice'']
   \<and> get_user_documents ''bob'' 20 0 None stored_world = []
   \<and> map_option qa_user_id (get_analysis ''a2'' ''alice'' analysed_world) = Some ''alice''
   \<and> get_analysis ''a2'' ''bob'' analysed_world = None"
proof -
  obtain d where d: "documents stored_world = [d]" "doc_user_id d = ''alice''" "doc_id d = ''d1''"
    by (simp add: stored_world_def world_with_sel example_documents_sel)
  have g1: "get_document ''d1'' (Some ''alice'') stored_world = Some d"
    using d by (simp add: get_document_def truthy_def)
  have l1: "get_user_documents ''alice'' 20 0 None stored_world = [d]"
    using d by (simp add: get_user_documents_def truthy_def)
  note s1 = reads_are_owner_scoped [of "''a2''" "''alice''" stored_world 20 0 None None "''d1''"]
  from s1 g1 have c1: "map_option doc_user_id (get_document ''d1'' (Some ''alice'') stored_world)
                        = Some ''alice''"
    by simp
  from s1 l1 have c2: "map doc_user_id (get_user_documents ''alice'' 20 0 None stored_world)
                        = [''alice'']"
    by simp
  have c3: "get_document ''d1'' (Some ''bob'') stored_world = None"
    using d by (simp add: get_document_def truthy_def)
  have c4: "get_user_documents ''bob'' 20 0 None stored_world = []"
    using d by (simp add: get_user_documents_def truthy_def)
  have g2: "get_analysis ''a2'' ''alice'' analysed_world
             = Some (fallback_row ascii_python (example_insert ''a2'') example_question ''alice'' None)"
    by (simp add: get_analysis_def analysed_world_analyses fallback_row_sel example_insert_sel)
  note s2 = reads_are_owner_scoped [of "''a2''" "''alice''" analysed_world 20 0 None None "''d1''"]
  from s2 g2 have c5: "map_option qa_user_id (get_analysis ''a2'' ''alice'' analysed_world)
                        = Some ''alice''"
    by simp
  have c6: "get_analysis ''a2'' ''bob'' analysed_world = None"
    by (simp add: get_analysis_def analysed_world_analyses fallback_row_sel example_insert_sel)
  show ?thesis using c1 c2 c3 c4 c5 c6 by simp
qed


end
